theory Spec2Isabelle
  imports Main
begin

section \<open>Strings\<close>

text \<open>
  A Python \<open>str\<close> is a sequence of Unicode code points, so a string is a list of
  naturals here. Literals of the source are written through \<open>ustr\<close>, which maps an
  ASCII literal to its code points.
\<close>

type_synonym pychar = nat
type_synonym pystr = "pychar list"
type_synonym bytes = "nat list"

definition ustr :: "string \<Rightarrow> pystr" where
  "ustr s = map of_char s"

text \<open>
  The characters that \<open>str.split()\<close> (without a separator) and \<open>str.strip()\<close> treat as
  whitespace: U+0009..U+000D, U+001C..U+0020, U+0085, U+00A0, U+1680, U+2000..U+200A,
  U+2028, U+2029, U+202F, U+205F and U+3000.
\<close>

definition is_space :: "pychar \<Rightarrow> bool" where
  "is_space c \<longleftrightarrow>
     (9 \<le> c \<and> c \<le> 13) \<or> (28 \<le> c \<and> c \<le> 32) \<or> c = 133 \<or> c = 160 \<or> c = 5760 \<or>
     (8192 \<le> c \<and> c \<le> 8202) \<or> c = 8232 \<or> c = 8233 \<or> c = 8239 \<or> c = 8287 \<or> c = 12288"

text \<open>\<open>s.strip()\<close>: whitespace is dropped at both ends.\<close>

definition py_strip :: "pystr \<Rightarrow> pystr" where
  "py_strip s = rev (dropWhile is_space (rev (dropWhile is_space s)))"

text \<open>
  \<open>s.split()\<close>: the maximal runs of non-whitespace characters, in order. The
  accumulator \<open>cur\<close> is the word being read.
\<close>

fun split_from :: "pystr \<Rightarrow> pystr \<Rightarrow> pystr list" where
  "split_from cur [] = (if cur = [] then [] else [cur])"
| "split_from cur (c # cs) =
     (if is_space c then (if cur = [] then split_from [] cs else cur # split_from [] cs)
      else split_from (cur @ [c]) cs)"

definition py_split :: "pystr \<Rightarrow> pystr list" where
  "py_split s = split_from [] s"

text \<open>\<open>sep.join(xs)\<close>.\<close>

fun py_join :: "pystr \<Rightarrow> pystr list \<Rightarrow> pystr" where
  "py_join sep [] = []"
| "py_join sep [x] = x"
| "py_join sep (x # y # ys) = x @ sep @ py_join sep (y # ys)"

section \<open>Filename sanitization\<close>

text \<open>
  \<open>FILENAME_SANITIZATION_PATTERN\<close> is the character class
  \<^verbatim>\<open>[<>:\"\/\\|?*\|\']\<close>: it matches one of the ten characters
  \<^verbatim>\<open>< > : " / \ | ? * '\<close>, listed below by code point in the order of the pattern.
\<close>

definition forbidden :: "pychar \<Rightarrow> bool" where
  "forbidden c \<longleftrightarrow> c \<in> set [60, 62, 58, 34, 47, 92, 124, 63, 42, 124, 39]"

text \<open>\<open>re.sub(FILENAME_SANITIZATION_PATTERN, '', name)\<close> deletes every match.\<close>

definition strip_forbidden :: "pystr \<Rightarrow> pystr" where
  "strip_forbidden name = filter (\<lambda>c. \<not> forbidden c) name"

definition normalize_filename :: "pystr \<Rightarrow> pystr" where
  "normalize_filename name =
     py_strip (py_join (ustr '' '') (py_split (strip_forbidden name)))"


section \<open>Integer literals\<close>

datatype exn = RequestException | OSError | ValueError | KeyError

text \<open>
  \<open>int(x)\<close> on a string, as CPython 3.11 does it. The string is first brought to
  ASCII: a code point below 128 is kept, other whitespace becomes a blank, and any other
  character must be a Unicode decimal digit (general category Nd), which becomes the ASCII
  digit of its value. The Nd characters of Unicode 14.0 come in 66 blocks of ten
  consecutive code points with the values 0 to 9; \<open>digit_zeros\<close> lists the first code
  point of each block.
\<close>

definition digit_zeros :: "pychar list" where
  "digit_zeros =
     [48, 1632, 1776, 1984, 2406, 2534, 2662, 2790, 2918, 3046, 3174, 3302, 3430, 3558,
      3664, 3792, 3872, 4160, 4240, 6112, 6160, 6470, 6608, 6784, 6800, 6992, 7088, 7232,
      7248, 42528, 43216, 43264, 43472, 43504, 43600, 44016, 65296, 66720, 68912, 69734,
      69872, 69942, 70096, 70384, 70736, 70864, 71248, 71360, 71472, 71904, 72016, 72784,
      73040, 73120, 92768, 92864, 93008, 120782, 120792, 120802, 120812, 120822, 123200,
      123632, 125264, 130032]"

definition unicode_decimal :: "pychar \<Rightarrow> nat option" where
  "unicode_decimal c =
     (case filter (\<lambda>z. z \<le> c \<and> c < z + 10) digit_zeros of
        [] \<Rightarrow> None
      | z # _ \<Rightarrow> Some (c - z))"

definition ascii_of :: "pychar \<Rightarrow> pychar option" where
  "ascii_of c =
     (if c < 128 then Some c
      else if is_space c then Some 32
      else map_option (\<lambda>d. 48 + d) (unicode_decimal c))"

text \<open>The whitespace of the C locale, which the number parser skips at both ends.\<close>

definition c_isspace :: "pychar \<Rightarrow> bool" where
  "c_isspace c \<longleftrightarrow> (9 \<le> c \<and> c \<le> 13) \<or> c = 32"

text \<open>
  The digits of the literal: ASCII digits, with single underscores allowed between two
  digits. \<open>scan_digits prev cs n v\<close> reads \<open>cs\<close> after the character \<open>prev\<close>, having
  counted \<open>n\<close> digits of value \<open>v\<close>, and fails on any other character, on a doubled
  underscore and on a trailing underscore.
\<close>

fun scan_digits :: "pychar \<Rightarrow> pystr \<Rightarrow> nat \<Rightarrow> int \<Rightarrow> (nat \<times> int) option" where
  "scan_digits prev [] n v = (if prev = 95 then None else Some (n, v))"
| "scan_digits prev (c # cs) n v =
     (if c = 95 then (if prev = 95 then None else scan_digits c cs n v)
      else if 48 \<le> c \<and> c \<le> 57 then scan_digits c cs (Suc n) (10 * v + int (c - 48))
      else None)"

text \<open>
  The default of \<open>sys.get_int_max_str_digits()\<close>; a literal of more digits is refused
  (the limit is only looked at beyond 640 digits).
\<close>

definition max_str_digits :: nat where
  "max_str_digits = 4300"

definition py_int :: "pystr \<Rightarrow> exn + int" where
  "py_int s =
     (case those (map ascii_of s) of
        None \<Rightarrow> Inl ValueError
      | Some a \<Rightarrow>
          (let b = dropWhile c_isspace a;
               neg = (b \<noteq> [] \<and> hd b = 45);
               d = (if b \<noteq> [] \<and> (hd b = 43 \<or> hd b = 45) then tl b else b);
               body = rev (dropWhile c_isspace (rev d))
           in if body = [] \<or> hd body = 95 then Inl ValueError
              else (case scan_digits 0 body 0 0 of
                      None \<Rightarrow> Inl ValueError
                    | Some (n, v) \<Rightarrow>
                        if 640 < n \<and> 0 < max_str_digits \<and> max_str_digits < n
                        then Inl ValueError
                        else Inr (if neg then - v else v))))"


section \<open>Data\<close>

text \<open>The frozen dataclass \<open>TrackMetadata\<close>.\<close>

record TrackMetadata =
  title :: pystr
  artists :: pystr
  album :: pystr
  tid :: pystr

text \<open>
  A decoded JSON value, for the two fields the program only tests: \<open>nextOffset\<close> for
  truth and \<open>success\<close> for equality with \<open>False\<close>. A float is kept as mantissa and
  binary exponent.
\<close>

datatype json =
    JNull
  | JBool bool
  | JInt int
  | JFloat int int
  | JStr pystr
  | JList "json list"
  | JDict "(pystr \<times> json) list"

text \<open>\<open>not v\<close> is the negation of \<open>truthy v\<close>.\<close>

fun truthy :: "json \<Rightarrow> bool" where
  "truthy JNull = False"
| "truthy (JBool b) = b"
| "truthy (JInt n) = (n \<noteq> 0)"
| "truthy (JFloat m e) = (m \<noteq> 0)"
| "truthy (JStr s) = (s \<noteq> [])"
| "truthy (JList xs) = (xs \<noteq> [])"
| "truthy (JDict kvs) = (kvs \<noteq> [])"

text \<open>
  \<open>v == False\<close>, where \<open>v\<close> is the result of \<open>resp.get('success')\<close>: \<open>None\<close> for a
  missing key. \<open>False\<close> equals the numbers zero and nothing else.
\<close>

fun eq_False :: "json option \<Rightarrow> bool" where
  "eq_False (Some (JBool b)) = (\<not> b)"
| "eq_False (Some (JInt n)) = (n = 0)"
| "eq_False (Some (JFloat m e)) = (m = 0)"
| "eq_False _ = False"

text \<open>
  The bodies of the metadata service, decoded. The fields that the program reads with a
  subscript are typed as the service documents them; a field read with \<open>.get\<close> is
  optional. \<open>dj_metadata\<close> is optional because a \<open>success = false\<close> answer need not
  carry it.
\<close>

record track_json =
  tj_title :: pystr
  tj_artists :: pystr
  tj_album :: "pystr option"
  tj_id :: pystr

record download_json =
  dj_success :: "json option"
  dj_metadata :: "track_json option"

record collection_json =
  cj_title :: pystr
  cj_artists :: pystr

record page_json =
  pj_trackList :: "track_json list"
  pj_nextOffset :: json

section \<open>The world outside the program\<close>

text \<open>
  A call of \<open>requests.get\<close> either raises a \<open>RequestException\<close> itself (no
  connection, timeout) or returns a response with a status code and a body.
\<close>

datatype 'a response = NoResponse | Response nat 'a

text \<open>The requests the program makes, by endpoint and parameters.\<close>

datatype request =
    GetDownload pystr
  | GetAlbum pystr
  | GetAlbumTracks pystr
  | GetPlaylist pystr
  | GetPlaylistTracks pystr json
  | GetAudio pystr

datatype node = File bytes | Dir

text \<open>
  What \<open>open(path, "wb")\<close> followed by \<open>file.write(content)\<close> does at a path that the
  operating system accepts: it succeeds, \<open>open\<close> raises \<open>OSError\<close>, or \<open>write\<close> raises it
  after the first \<open>k\<close> bytes.
\<close>

datatype write_result = WriteOk | OpenError | WriteError nat

text \<open>
  The environment is what the program cannot control. The answer of a server may depend
  on how many requests were made before (the first argument), so a server that fails
  twice and then answers is an environment. Paths are POSIX paths.
\<close>

record env =
  download_api :: "nat \<Rightarrow> pystr \<Rightarrow> download_json response"
  album_api :: "nat \<Rightarrow> pystr \<Rightarrow> collection_json response"
  album_tracks_api :: "nat \<Rightarrow> pystr \<Rightarrow> track_json list response"
  playlist_api :: "nat \<Rightarrow> pystr \<Rightarrow> collection_json response"
  playlist_tracks_api :: "nat \<Rightarrow> pystr \<Rightarrow> json \<Rightarrow> page_json response"
  audio_api :: "nat \<Rightarrow> pystr \<Rightarrow> bytes response"
  getcwd :: pystr
  open_wb :: "pystr \<Rightarrow> write_result"
  mkdir_ok :: "pystr \<Rightarrow> bool"

text \<open>One constructor for each \<open>print\<close> of the program, with the values it formats.\<close>

datatype msg =
    RetryTrack nat nat
  | FailedTrack nat
  | AlbumBy pystr pystr
  | GettingAlbumSongs
  | RetryAlbum nat nat
  | FailedAlbum nat
  | PlaylistBy pystr pystr
  | GettingPlaylistSongs
  | RetryPlaylist nat nat
  | FailedPlaylist nat
  | Downloading pystr
  | Downloaded
  | SkippedExists
  | RetryDownload nat nat
  | FailedDownload nat
  | PromptUrl
  | FailedAlbumExit
  | TracksInAlbum
  | FailedPlaylistExit
  | TracksInPlaylist
  | Listing nat pystr pystr
  | PromptSelection
  | UnableTrack
  | Completed

text \<open>
  The state the program changes: the files and directories, the requests sent so far,
  what was printed, and the seconds slept.
\<close>

record world =
  files :: "pystr \<Rightarrow> node option"
  requests_log :: "request list"
  stdout :: "msg list"
  slept :: nat

definition print :: "msg \<Rightarrow> world \<Rightarrow> world" where
  "print m w = w\<lparr>stdout := stdout w @ [m]\<rparr>"

definition sleep :: "nat \<Rightarrow> world \<Rightarrow> world" where
  "sleep n w = w\<lparr>slept := slept w + n\<rparr>"

definition sent :: "world \<Rightarrow> nat" where
  "sent w = length (requests_log w)"

text \<open>
  \<open>requests.get\<close>: the request is logged and the server's answer \<open>r\<close> is returned or
  raised. \<open>raise_for_status\<close> raises for a status from 400 to 599.
\<close>

definition log_request :: "request \<Rightarrow> world \<Rightarrow> world" where
  "log_request rq w = w\<lparr>requests_log := requests_log w @ [rq]\<rparr>"

definition requests_get :: "'a response \<Rightarrow> request \<Rightarrow> world \<Rightarrow> (exn + nat \<times> 'a) \<times> world" where
  "requests_get r rq w =
     (case r of
        NoResponse \<Rightarrow> (Inl RequestException, log_request rq w)
      | Response st b \<Rightarrow> (Inr (st, b), log_request rq w))"

definition raise_for_status :: "nat \<Rightarrow> exn + unit" where
  "raise_for_status st = (if 400 \<le> st \<and> st < 600 then Inl RequestException else Inr ())"

text \<open>\<open>requests.get\<close> followed by \<open>response.raise_for_status()\<close>.\<close>

definition get_ok :: "'a response \<Rightarrow> request \<Rightarrow> world \<Rightarrow> (exn + nat \<times> 'a) \<times> world" where
  "get_ok r rq w =
     (case requests_get r rq w of
        (Inl e, w1) \<Rightarrow> (Inl e, w1)
      | (Inr (st, b), w1) \<Rightarrow>
          (case raise_for_status st of
             Inl e \<Rightarrow> (Inl e, w1)
           | Inr _ \<Rightarrow> (Inr (st, b), w1)))"

text \<open>\<open>os.path.join\<close> of two components, \<open>os.path.exists\<close>, \<open>os.makedirs(p, exist_ok=True)\<close>
  and the write of a whole file.\<close>

definition path_join :: "pystr \<Rightarrow> pystr \<Rightarrow> pystr" where
  "path_join a b =
     (if b \<noteq> [] \<and> hd b = 47 then b
      else if a = [] \<or> last a = 47 then a @ b
      else a @ [47] @ b)"

definition path_exists :: "world \<Rightarrow> pystr \<Rightarrow> bool" where
  "path_exists w p \<longleftrightarrow> files w p \<noteq> None"

text \<open>
  A path that cannot be handed to the operating system: it holds U+0000, or a surrogate
  that the file system encoding (UTF-8 with \<open>surrogateescape\<close>) cannot encode, which are
  U+D800 to U+DC7F and U+DD00 to U+DFFF. For such a path \<open>open\<close> and \<open>os.makedirs\<close>
  raise \<open>ValueError\<close> (of which \<open>UnicodeEncodeError\<close> is a subclass) before they touch the
  disk, and \<open>os.path.exists\<close> answers \<open>False\<close>: nothing lives at such a path, and the
  operations below never put anything there.
\<close>

definition unencodable :: "pychar \<Rightarrow> bool" where
  "unencodable c \<longleftrightarrow> c = 0 \<or> (55296 \<le> c \<and> c \<le> 56447) \<or> (56576 \<le> c \<and> c \<le> 57343)"

definition bad_path :: "pystr \<Rightarrow> bool" where
  "bad_path p = list_ex unencodable p"

definition makedirs :: "env \<Rightarrow> pystr \<Rightarrow> world \<Rightarrow> (exn + unit) \<times> world" where
  "makedirs env p w =
     (if bad_path p then (Inl ValueError, w)
      else (case files w p of
              Some Dir \<Rightarrow> (Inr (), w)
            | Some (File _) \<Rightarrow> (Inl OSError, w)
            | None \<Rightarrow>
                if mkdir_ok env p then (Inr (), w\<lparr>files := (files w)(p \<mapsto> Dir)\<rparr>)
                else (Inl OSError, w)))"

definition write_file :: "env \<Rightarrow> pystr \<Rightarrow> bytes \<Rightarrow> world \<Rightarrow> (exn + unit) \<times> world" where
  "write_file env p content w =
     (if bad_path p then (Inl ValueError, w)
      else (case open_wb env p of
              WriteOk \<Rightarrow> (Inr (), w\<lparr>files := (files w)(p \<mapsto> File content)\<rparr>)
            | OpenError \<Rightarrow> (Inl OSError, w)
            | WriteError k \<Rightarrow>
                (Inl OSError, w\<lparr>files := (files w)(p \<mapsto> File (take k content))\<rparr>)))"


section \<open>Metadata resolution\<close>

text \<open>\<open>link.split("/")[-1].split("?")[0]\<close>: what follows the last slash, up to the first
  question mark.\<close>

definition resource_id :: "pystr \<Rightarrow> pystr" where
  "resource_id link = takeWhile (\<lambda>c. c \<noteq> 63) (rev (takeWhile (\<lambda>c. c \<noteq> 47) (rev link)))"

text \<open>
  The \<open>TrackMetadata\<close> built from a track of the service: for the single track and for
  the tracks of a playlist, the album is the track's own or \<open>Unknown Album\<close>; for the
  tracks of an album it is the album's title.
\<close>

definition track_of_json :: "track_json \<Rightarrow> TrackMetadata" where
  "track_of_json track =
     \<lparr>title = normalize_filename (tj_title track),
      artists = normalize_filename (tj_artists track),
      album = (case tj_album track of None \<Rightarrow> ustr ''Unknown Album'' | Some a \<Rightarrow> a),
      tid = tj_id track\<rparr>"

definition album_track_of_json :: "pystr \<Rightarrow> track_json \<Rightarrow> TrackMetadata" where
  "album_track_of_json album_name track =
     \<lparr>title = normalize_filename (tj_title track),
      artists = normalize_filename (tj_artists track),
      album = album_name,
      tid = tj_id track\<rparr>"

subsection \<open>\<open>fetch_track_metadata\<close>\<close>

text \<open>The body of the \<open>try\<close>, then the loop \<open>for attempt in range(max_retries)\<close>; the
  last argument but one counts the iterations that remain. A loop that runs out returns
  \<open>None\<close>, as a Python function without \<open>return\<close> does.\<close>

definition track_try :: "env \<Rightarrow> pystr \<Rightarrow> world \<Rightarrow> (exn + download_json) \<times> world" where
  "track_try env track_id w =
     (case get_ok (download_api env (sent w) track_id) (GetDownload track_id) w of
        (Inl e, w1) \<Rightarrow> (Inl e, w1)
      | (Inr (st, body), w1) \<Rightarrow> (Inr body, w1))"

fun track_attempts ::
  "env \<Rightarrow> pystr \<Rightarrow> nat \<Rightarrow> nat \<Rightarrow> nat \<Rightarrow> world \<Rightarrow> (exn + download_json option) \<times> world" where
  "track_attempts env track_id max_retries attempt 0 w = (Inr None, w)"
| "track_attempts env track_id max_retries attempt (Suc k) w =
     (case track_try env track_id w of
        (Inr body, w1) \<Rightarrow> (Inr (Some body), w1)
      | (Inl e, w1) \<Rightarrow>
          if e = RequestException then
            (if attempt < max_retries - 1
             then track_attempts env track_id max_retries (attempt + 1) k
                    (sleep 2 (print (RetryTrack (attempt + 2) max_retries) w1))
             else (Inr None, print (FailedTrack max_retries) w1))
          else (Inl e, w1))"

definition fetch_track_metadata ::
  "env \<Rightarrow> pystr \<Rightarrow> nat \<Rightarrow> world \<Rightarrow> (exn + download_json option) \<times> world" where
  "fetch_track_metadata env link max_retries w =
     track_attempts env (resource_id link) max_retries 0 max_retries w"

subsection \<open>\<open>fetch_album_metadata\<close>\<close>

definition album_try ::
  "env \<Rightarrow> pystr \<Rightarrow> world \<Rightarrow> (exn + TrackMetadata list \<times> pystr) \<times> world" where
  "album_try env album_id w =
     (case get_ok (album_api env (sent w) album_id) (GetAlbum album_id) w of
        (Inl e, w1) \<Rightarrow> (Inl e, w1)
      | (Inr (st, album_data), w1) \<Rightarrow>
          (let album_name = cj_title album_data;
               w2 = print GettingAlbumSongs (print (AlbumBy album_name (cj_artists album_data)) w1)
           in case get_ok (album_tracks_api env (sent w2) album_id) (GetAlbumTracks album_id) w2 of
                (Inl e, w3) \<Rightarrow> (Inl e, w3)
              | (Inr (st', track_list), w3) \<Rightarrow>
                  (Inr (map (album_track_of_json album_name) track_list, album_name), w3)))"

fun album_attempts ::
  "env \<Rightarrow> pystr \<Rightarrow> nat \<Rightarrow> nat \<Rightarrow> nat \<Rightarrow> world \<Rightarrow>
     (exn + (TrackMetadata list \<times> pystr) option) \<times> world" where
  "album_attempts env album_id max_retries attempt 0 w = (Inr None, w)"
| "album_attempts env album_id max_retries attempt (Suc k) w =
     (case album_try env album_id w of
        (Inr r, w1) \<Rightarrow> (Inr (Some r), w1)
      | (Inl e, w1) \<Rightarrow>
          if e = RequestException then
            (if attempt < max_retries - 1
             then album_attempts env album_id max_retries (attempt + 1) k
                    (sleep 2 (print (RetryAlbum (attempt + 2) max_retries) w1))
             else (Inr None, print (FailedAlbum max_retries) w1))
          else (Inl e, w1))"

definition fetch_album_metadata ::
  "env \<Rightarrow> pystr \<Rightarrow> nat \<Rightarrow> world \<Rightarrow> (exn + (TrackMetadata list \<times> pystr) option) \<times> world" where
  "fetch_album_metadata env link max_retries w =
     album_attempts env (resource_id link) max_retries 0 max_retries w"

subsection \<open>\<open>fetch_playlist_metadata\<close>\<close>

text \<open>
  The loop \<open>while True\<close> over the pages. It ends on a falsy \<open>nextOffset\<close> or on an
  exception, and on no other way: a service that always names a next page keeps it
  running, so the function is partial and \<open>None\<close> stands for a run that never returns.
\<close>

partial_function (option) fetch_pages ::
  "env \<Rightarrow> pystr \<Rightarrow> json \<Rightarrow> track_json list \<Rightarrow> world \<Rightarrow>
     ((exn + track_json list) \<times> world) option" where
  "fetch_pages env playlist_id next_offset track_list w =
     (case get_ok (playlist_tracks_api env (sent w) playlist_id next_offset)
             (GetPlaylistTracks playlist_id next_offset) w of
        (Inl e, w1) \<Rightarrow> Some (Inl e, w1)
      | (Inr (st, data), w1) \<Rightarrow>
          if \<not> truthy (pj_nextOffset data)
          then Some (Inr (track_list @ pj_trackList data), w1)
          else fetch_pages env playlist_id (pj_nextOffset data)
                 (track_list @ pj_trackList data) w1)"

definition playlist_try ::
  "env \<Rightarrow> pystr \<Rightarrow> world \<Rightarrow> ((exn + TrackMetadata list \<times> pystr) \<times> world) option" where
  "playlist_try env playlist_id w =
     (case get_ok (playlist_api env (sent w) playlist_id) (GetPlaylist playlist_id) w of
        (Inl e, w1) \<Rightarrow> Some (Inl e, w1)
      | (Inr (st, playlist_data), w1) \<Rightarrow>
          (let playlist_name = cj_title playlist_data;
               w2 = print GettingPlaylistSongs
                      (print (PlaylistBy playlist_name (cj_artists playlist_data)) w1)
           in case fetch_pages env playlist_id (JInt 0) [] w2 of
                None \<Rightarrow> None
              | Some (Inl e, w3) \<Rightarrow> Some (Inl e, w3)
              | Some (Inr track_list, w3) \<Rightarrow>
                  Some (Inr (map track_of_json track_list, playlist_name), w3)))"

fun playlist_attempts ::
  "env \<Rightarrow> pystr \<Rightarrow> nat \<Rightarrow> nat \<Rightarrow> nat \<Rightarrow> world \<Rightarrow>
     ((exn + (TrackMetadata list \<times> pystr) option) \<times> world) option" where
  "playlist_attempts env playlist_id max_retries attempt 0 w = Some (Inr None, w)"
| "playlist_attempts env playlist_id max_retries attempt (Suc k) w =
     (case playlist_try env playlist_id w of
        None \<Rightarrow> None
      | Some (Inr r, w1) \<Rightarrow> Some (Inr (Some r), w1)
      | Some (Inl e, w1) \<Rightarrow>
          if e = RequestException then
            (if attempt < max_retries - 1
             then playlist_attempts env playlist_id max_retries (attempt + 1) k
                    (sleep 2 (print (RetryPlaylist (attempt + 2) max_retries) w1))
             else Some (Inr None, print (FailedPlaylist max_retries) w1))
          else Some (Inl e, w1))"

definition fetch_playlist_metadata ::
  "env \<Rightarrow> pystr \<Rightarrow> nat \<Rightarrow> world \<Rightarrow>
     ((exn + (TrackMetadata list \<times> pystr) option) \<times> world) option" where
  "fetch_playlist_metadata env link max_retries w =
     playlist_attempts env (resource_id link) max_retries 0 max_retries w"

section \<open>Download\<close>

text \<open>\<open>persist_audio_file\<close> returns \<open>False\<close> when the file is there already and when the
  status is neither an error nor 200, and \<open>True\<close> after writing the file.\<close>

definition persist_audio_file ::
  "env \<Rightarrow> pystr \<Rightarrow> pystr \<Rightarrow> pystr \<Rightarrow> world \<Rightarrow> (exn + bool) \<times> world" where
  "persist_audio_file env trackname track_id outpath w =
     (let path = path_join outpath (normalize_filename trackname @ ustr ''.mp3'')
      in if path_exists w path then (Inr False, w)
         else (case get_ok (audio_api env (sent w) track_id) (GetAudio track_id) w of
                 (Inl e, w1) \<Rightarrow> (Inl e, w1)
               | (Inr (status_code, content), w1) \<Rightarrow>
                   if status_code = 200
                   then (case write_file env path content w1 of
                           (Inl e, w2) \<Rightarrow> (Inl e, w2)
                         | (Inr _, w2) \<Rightarrow> (Inr True, w2))
                   else (Inr False, w1)))"

fun download_attempts ::
  "env \<Rightarrow> pystr \<Rightarrow> pystr \<Rightarrow> pystr \<Rightarrow> nat \<Rightarrow> nat \<Rightarrow> nat \<Rightarrow> world \<Rightarrow>
     (exn + bool option) \<times> world" where
  "download_attempts env trackname track_id outpath max_retries attempt 0 w = (Inr None, w)"
| "download_attempts env trackname track_id outpath max_retries attempt (Suc k) w =
     (case persist_audio_file env trackname track_id outpath w of
        (Inr b, w1) \<Rightarrow>
          if b then (Inr (Some True), print Downloaded w1)
          else (Inr (Some True), print SkippedExists w1)
      | (Inl e, w1) \<Rightarrow>
          if e = RequestException then
            (if attempt < max_retries - 1
             then download_attempts env trackname track_id outpath max_retries (attempt + 1) k
                    (sleep 2 (print (RetryDownload (attempt + 2) max_retries) w1))
             else (Inr (Some False), print (FailedDownload max_retries) w1))
          else (Inl e, w1))"

text \<open>\<open>f"{track.title} - {track.artists}"\<close>\<close>

definition trackname_of :: "TrackMetadata \<Rightarrow> pystr" where
  "trackname_of track = title track @ ustr '' - '' @ artists track"

definition download_track ::
  "env \<Rightarrow> TrackMetadata \<Rightarrow> pystr \<Rightarrow> nat \<Rightarrow> world \<Rightarrow> (exn + bool option) \<times> world" where
  "download_track env track outpath max_retries w =
     (let trackname = trackname_of track
      in download_attempts env trackname (tid track) outpath max_retries 0 max_retries
           (print (Downloading trackname) w))"

section \<open>The main program\<close>

text \<open>The loop \<open>for song in selected_songs: download_track(song, outpath)\<close>. The value of
  \<open>download_track\<close> is dropped; an exception it lets through ends the loop.\<close>

fun download_songs ::
  "env \<Rightarrow> TrackMetadata list \<Rightarrow> pystr \<Rightarrow> world \<Rightarrow> (exn + unit) \<times> world" where
  "download_songs env [] outpath w = (Inr (), w)"
| "download_songs env (song # rest) outpath w =
     (case download_track env song outpath 3 w of
        (Inl e, w1) \<Rightarrow> (Inl e, w1)
      | (Inr _, w1) \<Rightarrow> download_songs env rest outpath w1)"

text \<open>
  The selection, written twice in \<open>main\<close> (for an album and for a playlist) with the same
  text: a blank answer selects every song; otherwise each word is read by \<open>int\<close>, which
  raises \<open>ValueError\<close> on the first word that is no integer literal, and the songs at the
  indices in range are taken in the order of the answer.
\<close>

fun ints_of :: "pystr list \<Rightarrow> exn + int list" where
  "ints_of [] = Inr []"
| "ints_of (x # xs) =
     (case py_int x of
        Inl e \<Rightarrow> Inl e
      | Inr n \<Rightarrow> (case ints_of xs of Inl e \<Rightarrow> Inl e | Inr ns \<Rightarrow> Inr ((n - 1) # ns)))"

definition select_songs :: "'a list \<Rightarrow> pystr \<Rightarrow> exn + 'a list" where
  "select_songs songs selection =
     (if py_strip selection \<noteq> [] then
        (case ints_of (py_split selection) of
           Inl e \<Rightarrow> Inl e
         | Inr indices \<Rightarrow>
             Inr (map (\<lambda>i. songs ! nat i)
                    (filter (\<lambda>i. 0 \<le> i \<and> i < int (length songs)) indices)))
      else Inr songs)"

text \<open>What both branches do after the songs are listed: select, name and make the
  folder, download.\<close>

definition download_selection ::
  "env \<Rightarrow> TrackMetadata list \<Rightarrow> pystr \<Rightarrow> pystr \<Rightarrow> world \<Rightarrow> (exn + unit) \<times> world" where
  "download_selection env songs collection_name selection w =
     (case select_songs songs selection of
        Inl e \<Rightarrow> (Inl e, print PromptSelection w)
      | Inr selected_songs \<Rightarrow>
          (let outpath = path_join (getcwd env) (normalize_filename collection_name)
           in case makedirs env outpath (print PromptSelection w) of
                (Inl e, w1) \<Rightarrow> (Inl e, w1)
              | (Inr _, w1) \<Rightarrow> download_songs env selected_songs outpath w1))"

definition listing :: "TrackMetadata list \<Rightarrow> msg list" where
  "listing songs = map (\<lambda>(i, song). Listing (Suc i) (title song) (artists song)) (enumerate 0 songs)"

text \<open>
  \<open>main\<close>, given the two lines the user types: the link, and the selection (read only
  when a collection was resolved). The result is \<open>Inr ()\<close> when \<open>main\<close> returns and
  \<open>Inl e\<close> when it ends with the uncaught exception \<open>e\<close>; \<open>None\<close> stands for a run that
  never ends, which only the page loop of a playlist can cause. The banner printed when
  the module is loaded comes before \<open>main\<close> and is left out.
\<close>

definition finish :: "(exn + unit) \<times> world \<Rightarrow> (exn + unit) \<times> world" where
  "finish r = (case r of (Inl e, w) \<Rightarrow> (Inl e, w) | (Inr _, w) \<Rightarrow> (Inr (), print Completed w))"

fun is_prefix :: "pystr \<Rightarrow> pystr \<Rightarrow> bool" where
  "is_prefix [] s = True"
| "is_prefix (c # cs) [] = False"
| "is_prefix (c # cs) (d # ds) = (c = d \<and> is_prefix cs ds)"

fun contains :: "pystr \<Rightarrow> pystr \<Rightarrow> bool" where
  "contains sub [] = (sub = [])"
| "contains sub (c # cs) = (is_prefix sub (c # cs) \<or> contains sub cs)"

definition main :: "env \<Rightarrow> pystr \<Rightarrow> pystr \<Rightarrow> world \<Rightarrow> ((exn + unit) \<times> world) option" where
  "main env url selection w0 =
     (let w = print PromptUrl w0 in
      if contains (ustr ''album'') url then
        (case fetch_album_metadata env url 3 w of
           (Inl e, w1) \<Rightarrow> Some (Inl e, w1)
         | (Inr None, w1) \<Rightarrow> Some (Inr (), print FailedAlbumExit w1)
         | (Inr (Some (songs, album_name)), w1) \<Rightarrow>
             Some (finish (download_selection env songs album_name selection
                     (w1\<lparr>stdout := stdout w1 @ TracksInAlbum # listing songs\<rparr>))))
      else if contains (ustr ''playlist'') url then
        (case fetch_playlist_metadata env url 3 w of
           None \<Rightarrow> None
         | Some (Inl e, w1) \<Rightarrow> Some (Inl e, w1)
         | Some (Inr None, w1) \<Rightarrow> Some (Inr (), print FailedPlaylistExit w1)
         | Some (Inr (Some (songs, playlist_name)), w1) \<Rightarrow>
             Some (finish (download_selection env songs playlist_name selection
                     (w1\<lparr>stdout := stdout w1 @ TracksInPlaylist # listing songs\<rparr>))))
      else
        (case fetch_track_metadata env url 3 w of
           (Inl e, w1) \<Rightarrow> Some (Inl e, w1)
         | (Inr resp, w1) \<Rightarrow>
             (case resp of
                None \<Rightarrow> Some (Inr (), print UnableTrack w1)
              | Some r \<Rightarrow>
                  if eq_False (dj_success r) then Some (Inr (), print UnableTrack w1)
                  else (case dj_metadata r of
                          None \<Rightarrow> Some (Inl KeyError, w1)
                        | Some m \<Rightarrow>
                            Some (finish
                              (case download_track env (track_of_json m) (getcwd env) 3 w1 of
                                 (Inl e, w2) \<Rightarrow> (Inl e, w2)
                               | (Inr _, w2) \<Rightarrow> (Inr (), w2)))))))"


section \<open>Notions used in the statements\<close>

text \<open>A word is a non-empty string without whitespace.\<close>

definition wordp :: "pystr \<Rightarrow> bool" where
  "wordp t \<longleftrightarrow> t \<noteq> [] \<and> (\<forall>c\<in>set t. \<not> is_space c)"

text \<open>Two whitespace characters next to each other.\<close>

fun adjacent_spaces :: "pystr \<Rightarrow> bool" where
  "adjacent_spaces (a # b # cs) = ((is_space a \<and> is_space b) \<or> adjacent_spaces (b # cs))"
| "adjacent_spaces _ = False"

text \<open>An answer for which \<open>requests.get\<close> or \<open>raise_for_status\<close> raises
  \<open>RequestException\<close>: no response, or an error status.\<close>

definition raises :: "'a response \<Rightarrow> bool" where
  "raises r = (case r of NoResponse \<Rightarrow> True | Response st b \<Rightarrow> 400 \<le> st \<and> st < 600)"

text \<open>
  \<open>serves env playlist_id n off pages\<close>: from the request number \<open>n\<close> on, the service
  answers the page requests of the playlist, the first one at offset \<open>off\<close>, with the
  pages \<open>pages\<close> and no error status; every page but the last names a next offset, the
  last one names none. \<open>offsets off pages\<close> are the offsets then asked for.
\<close>

fun serves :: "env \<Rightarrow> pystr \<Rightarrow> nat \<Rightarrow> json \<Rightarrow> page_json list \<Rightarrow> bool" where
  "serves env playlist_id n off [] = False"
| "serves env playlist_id n off (p # ps) =
     ((case playlist_tracks_api env n playlist_id off of
         NoResponse \<Rightarrow> False
       | Response st b \<Rightarrow> \<not> (400 \<le> st \<and> st < 600) \<and> b = p) \<and>
      (if ps = [] then \<not> truthy (pj_nextOffset p)
       else truthy (pj_nextOffset p) \<and> serves env playlist_id (Suc n) (pj_nextOffset p) ps))"

fun offsets :: "json \<Rightarrow> page_json list \<Rightarrow> json list" where
  "offsets off [] = []"
| "offsets off (p # ps) = off # offsets (pj_nextOffset p) ps"

text \<open>
  \<open>breaks_off env playlist_id n off pages\<close>: from the request number \<open>n\<close> on, the pages
  \<open>pages\<close> are served, each naming a next offset, and the request after them gets no
  response or an error status.
\<close>

fun breaks_off :: "env \<Rightarrow> pystr \<Rightarrow> nat \<Rightarrow> json \<Rightarrow> page_json list \<Rightarrow> bool" where
  "breaks_off env playlist_id n off [] = raises (playlist_tracks_api env n playlist_id off)"
| "breaks_off env playlist_id n off (p # ps) =
     ((case playlist_tracks_api env n playlist_id off of
         NoResponse \<Rightarrow> False
       | Response st b \<Rightarrow> \<not> (400 \<le> st \<and> st < 600) \<and> b = p) \<and>
      truthy (pj_nextOffset p) \<and> breaks_off env playlist_id (Suc n) (pj_nextOffset p) ps)"

text \<open>
  What the printed messages tell about a batch: the track names announced with
  \<open>Downloading\<close>, in order, and the reports that close an item (downloaded, skipped,
  failed).
\<close>

definition started :: "msg list \<Rightarrow> pystr list" where
  "started ms = concat (map (\<lambda>m. case m of Downloading n \<Rightarrow> [n] | _ \<Rightarrow> []) ms)"

definition is_report :: "msg \<Rightarrow> bool" where
  "is_report m =
     (case m of Downloaded \<Rightarrow> True | SkippedExists \<Rightarrow> True | FailedDownload k \<Rightarrow> True
      | _ \<Rightarrow> False)"

definition reports :: "msg list \<Rightarrow> msg list" where
  "reports ms = filter is_report ms"

text \<open>The file that \<open>persist_audio_file\<close> looks for and writes.\<close>

definition target_path :: "pystr \<Rightarrow> TrackMetadata \<Rightarrow> pystr" where
  "target_path outpath track =
     path_join outpath (normalize_filename (trackname_of track) @ ustr ''.mp3'')"


section \<open>Sample values\<close>

text \<open>Concrete tracks, worlds and environments, on which the theorems are instantiated.\<close>

definition song_a :: TrackMetadata where
  "song_a = \<lparr>title = ustr ''Song'', artists = ustr ''Band'', album = ustr ''LP'', tid = ustr ''t1''\<rparr>"

definition song_b :: TrackMetadata where
  "song_b = \<lparr>title = ustr ''Tune'', artists = ustr ''Duo'', album = ustr ''LP'', tid = ustr ''t2''\<rparr>"

definition world0 :: world where
  "world0 = \<lparr>files = (\<lambda>p. None), requests_log = [], stdout = [], slept = 0\<rparr>"

text \<open>No server answers; the disk takes every file and directory.\<close>

definition offline :: env where
  "offline = \<lparr>download_api = (\<lambda>n i. NoResponse), album_api = (\<lambda>n i. NoResponse),
     album_tracks_api = (\<lambda>n i. NoResponse), playlist_api = (\<lambda>n i. NoResponse),
     playlist_tracks_api = (\<lambda>n i off. NoResponse), audio_api = (\<lambda>n i. NoResponse),
     getcwd = ustr ''/music'', open_wb = (\<lambda>p. WriteOk), mkdir_ok = (\<lambda>p. True)\<rparr>"

text \<open>The first two requests get no answer or an error status; later ones are served.\<close>

definition answer_a :: download_json where
  "answer_a = \<lparr>dj_success = Some (JBool True),
     dj_metadata = Some \<lparr>tj_title = ustr ''Song'', tj_artists = ustr ''Band'',
                          tj_album = None, tj_id = ustr ''t1''\<rparr>\<rparr>"

definition lp :: collection_json where
  "lp = \<lparr>cj_title = ustr ''LP'', cj_artists = ustr ''Band''\<rparr>"

definition lp_tracks :: "track_json list" where
  "lp_tracks =
     [\<lparr>tj_title = ustr ''Song'', tj_artists = ustr ''Band'', tj_album = None, tj_id = ustr ''t1''\<rparr>,
      \<lparr>tj_title = ustr ''Tune'', tj_artists = ustr ''Duo'', tj_album = None, tj_id = ustr ''t2''\<rparr>]"

definition mix :: collection_json where
  "mix = \<lparr>cj_title = ustr ''Mix'', cj_artists = ustr ''me''\<rparr>"

definition short_page :: page_json where
  "short_page = \<lparr>pj_trackList = lp_tracks, pj_nextOffset = JInt 0\<rparr>"

definition first_page :: page_json where
  "first_page = \<lparr>pj_trackList = lp_tracks, pj_nextOffset = JInt 2\<rparr>"

definition flaky :: env where
  "flaky = offline\<lparr>
     download_api := (\<lambda>n i. if n < 2 then NoResponse else Response 200 answer_a),
     album_api := (\<lambda>n i. if n < 2 then NoResponse else Response 200 lp),
     album_tracks_api := (\<lambda>n i. Response 200 lp_tracks),
     playlist_api := (\<lambda>n i. if n < 2 then Response 500 mix else Response 200 mix),
     playlist_tracks_api := (\<lambda>n i off. Response 200 short_page),
     audio_api := (\<lambda>n i. if n < 2 then Response 503 [] else Response 200 [1, 2, 3])\<rparr>"

text \<open>The metadata of a collection is served, but its track list is not: an album's
  track list gets no response, a playlist's second page gets an error status.\<close>

definition broken :: env where
  "broken = offline\<lparr>
     album_api := (\<lambda>n i. Response 200 lp),
     playlist_api := (\<lambda>n i. Response 200 mix),
     playlist_tracks_api := (\<lambda>n i off.
        if off = JInt 0 then Response 200 first_page else Response 503 short_page)\<rparr>"

definition track_link :: pystr where
  "track_link = ustr ''https://open.spotify.com/track/t1?si=x''"

text \<open>A playlist of 220 tracks, served in pages of 100, 100 and 20.\<close>

definition numbered :: "nat \<Rightarrow> track_json" where
  "numbered k = \<lparr>tj_title = ustr ''T'', tj_artists = ustr ''A'', tj_album = None, tj_id = [k]\<rparr>"

definition page1 :: page_json where
  "page1 = \<lparr>pj_trackList = map numbered [0..<100], pj_nextOffset = JInt 100\<rparr>"

definition page2 :: page_json where
  "page2 = \<lparr>pj_trackList = map numbered [100..<200], pj_nextOffset = JInt 200\<rparr>"

definition page3 :: page_json where
  "page3 = \<lparr>pj_trackList = map numbered [200..<220], pj_nextOffset = JInt 0\<rparr>"

definition paged :: env where
  "paged = offline\<lparr>
     playlist_api := (\<lambda>n i. Response 200 \<lparr>cj_title = ustr ''Mix'', cj_artists = ustr ''me''\<rparr>),
     playlist_tracks_api := (\<lambda>n i off.
        if off = JInt 0 then Response 200 page1
        else if off = JInt 100 then Response 200 page2
        else Response 200 page3)\<rparr>"

definition playlist_link :: pystr where
  "playlist_link = ustr ''https://open.spotify.com/playlist/p1''"

text \<open>An album of two tracks.\<close>

definition album_env :: env where
  "album_env = offline\<lparr>
     album_api := (\<lambda>n i. Response 200 \<lparr>cj_title = ustr ''LP'', cj_artists = ustr ''Band''\<rparr>),
     album_tracks_api := (\<lambda>n i. Response 200
        [\<lparr>tj_title = ustr ''Song'', tj_artists = ustr ''Band'', tj_album = None, tj_id = ustr ''t1''\<rparr>,
         \<lparr>tj_title = ustr ''Tune'', tj_artists = ustr ''Duo'', tj_album = None, tj_id = ustr ''t2''\<rparr>])\<rparr>"

definition album_link :: pystr where
  "album_link = ustr ''https://open.spotify.com/album/a1''"


text \<open>The delivery endpoint answers 204 (no content).\<close>

definition no_content :: env where
  "no_content = offline\<lparr>audio_api := (\<lambda>n i. Response 204 [])\<rparr>"

text \<open>The metadata service answers 200 with \<open>success = false\<close>.\<close>

definition answer_no :: download_json where
  "answer_no = \<lparr>dj_success = Some (JBool False), dj_metadata = None\<rparr>"

definition not_found :: env where
  "not_found = offline\<lparr>download_api := (\<lambda>n i. Response 200 answer_no)\<rparr>"

section \<open>Properties of the sanitizer\<close>

lemma split_from_words:
  "t \<in> set (split_from cur s) \<Longrightarrow> \<forall>c\<in>set cur. \<not> is_space c \<Longrightarrow> wordp t"
proof (induction cur s rule: split_from.induct)
  case (1 cur)
  then show ?case by (simp add: wordp_def split: if_splits)
next
  case (2 cur c cs)
  show ?case
  proof (cases "is_space c")
    case True
    note sp = this
    show ?thesis
    proof (cases "cur = []")
      case True
      with sp "2.prems" have "t \<in> set (split_from [] cs)" by simp
      then show ?thesis using "2.IH"(1)[OF sp True] by simp
    next
      case False
      with sp "2.prems" have "t = cur \<or> t \<in> set (split_from [] cs)" by simp
      then show ?thesis
      proof
        assume "t = cur" with False "2.prems"(2) show ?thesis by (simp add: wordp_def)
      next
        assume "t \<in> set (split_from [] cs)"
        then show ?thesis using "2.IH"(2)[OF sp False] by simp
      qed
    qed
  next
    case False
    with "2.prems" have a: "t \<in> set (split_from (cur @ [c]) cs)" by simp
    from False "2.prems"(2) have b: "\<forall>a\<in>set (cur @ [c]). \<not> is_space a" by simp
    show ?thesis by (rule "2.IH"(3)[OF False a b])
  qed
qed

lemma split_from_chars:
  "t \<in> set (split_from cur s) \<Longrightarrow> set t \<subseteq> set cur \<union> set s"
  by (induction cur s arbitrary: t rule: split_from.induct) (auto split: if_splits)

lemma split_from_nospace:
  "\<forall>c\<in>set t. \<not> is_space c \<Longrightarrow> split_from cur (t @ rest) = split_from (cur @ t) rest"
  by (induction t arbitrary: cur) auto

lemma is_space_32: "is_space 32" by (simp add: is_space_def)

lemma split_from_join:
  "\<forall>t\<in>set ts. wordp t \<Longrightarrow> split_from [] (py_join [32] ts) = ts"
proof (induction "[32::nat]" ts rule: py_join.induct)
  case 1 show ?case by simp
next
  case (2 x)
  then have "\<forall>c\<in>set x. \<not> is_space c" "x \<noteq> []" by (auto simp: wordp_def)
  then show ?case using split_from_nospace[of x "[]" "[]"] by simp
next
  case (3 x y ys)
  then have x: "\<forall>c\<in>set x. \<not> is_space c" "x \<noteq> []" by (auto simp: wordp_def)
  from 3 have "split_from [] (py_join [32] (y # ys)) = y # ys" by simp
  then show ?case using x split_from_nospace[of x "[]" "32 # py_join [32] (y # ys)"]
    by (simp add: is_space_32)
qed

lemma adjacent_spaces_word_append:
  "wordp x \<Longrightarrow> adjacent_spaces (x @ 32 # r) = adjacent_spaces (32 # r)"
proof (induction x rule: adjacent_spaces.induct)
  case (1 a b cs)
  then show ?case by (auto simp: wordp_def)
qed (simp_all add: wordp_def)

lemma adjacent_spaces_word: "wordp x \<Longrightarrow> \<not> adjacent_spaces x"
  by (induction x rule: adjacent_spaces.induct) (auto simp: wordp_def)

lemma join_shape:
  "\<forall>t\<in>set ts. wordp t \<Longrightarrow> ts \<noteq> [] \<Longrightarrow>
     py_join [32] ts \<noteq> [] \<and> \<not> is_space (hd (py_join [32] ts)) \<and> \<not> is_space (last (py_join [32] ts))
     \<and> \<not> adjacent_spaces (py_join [32] ts)"
proof (induction "[32::nat]" ts rule: py_join.induct)
  case 1 then show ?case by simp
next
  case (2 x)
  then show ?case by (auto simp: wordp_def adjacent_spaces_word)
next
  case (3 x y ys)
  then have x: "wordp x" and ih: "py_join [32] (y # ys) \<noteq> []"
      "\<not> is_space (hd (py_join [32] (y # ys)))" "\<not> is_space (last (py_join [32] (y # ys)))"
      "\<not> adjacent_spaces (py_join [32] (y # ys))" by auto
  from ih(1) obtain a r where r: "py_join [32] (y # ys) = a # r" by (cases "py_join [32] (y # ys)") auto
  show ?case using x ih r by (auto simp: wordp_def adjacent_spaces_word_append)
qed

lemma adjacent_spaces_nth:
  "adjacent_spaces r \<longleftrightarrow> (\<exists>i. Suc i < length r \<and> is_space (r ! i) \<and> is_space (r ! Suc i))"
proof (induction r rule: adjacent_spaces.induct)
  case (1 a b cs)
  show ?case
  proof
    assume "adjacent_spaces (a # b # cs)"
    then consider "is_space a \<and> is_space b" | "adjacent_spaces (b # cs)" by auto
    then show "\<exists>i. Suc i < length (a # b # cs) \<and> is_space ((a # b # cs) ! i) \<and> is_space ((a # b # cs) ! Suc i)"
    proof cases
      case 1 then show ?thesis by (intro exI[of _ 0]) simp
    next
      case 2
      with "1.IH" obtain i where "Suc i < length (b # cs)" "is_space ((b # cs) ! i)" "is_space ((b # cs) ! Suc i)" by auto
      then show ?thesis by (intro exI[of _ "Suc i"]) simp
    qed
  next
    assume "\<exists>i. Suc i < length (a # b # cs) \<and> is_space ((a # b # cs) ! i) \<and> is_space ((a # b # cs) ! Suc i)"
    then obtain i where i: "Suc i < length (a # b # cs)" "is_space ((a # b # cs) ! i)" "is_space ((a # b # cs) ! Suc i)" by auto
    show "adjacent_spaces (a # b # cs)"
    proof (cases i)
      case 0 with i show ?thesis by simp
    next
      case (Suc j)
      with i have "Suc j < length (b # cs)" "is_space ((b # cs) ! j)" "is_space ((b # cs) ! Suc j)" by auto
      with "1.IH" show ?thesis by auto
    qed
  qed
qed auto

lemma strip_clean:
  "r \<noteq> [] \<Longrightarrow> \<not> is_space (hd r) \<Longrightarrow> \<not> is_space (last r) \<Longrightarrow> py_strip r = r"
proof -
  assume a: "r \<noteq> []" "\<not> is_space (hd r)" "\<not> is_space (last r)"
  then have 1: "dropWhile is_space r = r" by (cases r) auto
  from a have "rev r \<noteq> []" "\<not> is_space (hd (rev r))" by (auto simp: hd_rev)
  then have 2: "dropWhile is_space (rev r) = rev r" by (cases "rev r") auto
  show ?thesis by (simp add: py_strip_def 1 2)
qed


lemma py_split_words: "t \<in> set (py_split s) \<Longrightarrow> wordp t"
  using split_from_words[of t "[]" s] by (simp add: py_split_def)

lemma py_split_join: "\<forall>t\<in>set ts. wordp t \<Longrightarrow> py_split (py_join [32] ts) = ts"
  by (simp add: py_split_def split_from_join)

lemma ustr_space: "ustr '' '' = [32]" by (simp add: ustr_def)

lemma not_forbidden_32: "\<not> forbidden 32" by (simp add: forbidden_def)

lemma join_chars: "set (py_join [32] ts) \<subseteq> insert 32 (\<Union>(set ` set ts))"
  by (induction "[32::nat]" ts rule: py_join.induct) auto

lemma py_strip_Nil: "py_strip [] = []" by (simp add: py_strip_def)

lemma py_join_Nil_iff: "\<forall>t\<in>set ts. wordp t \<Longrightarrow> py_join [32] ts = [] \<longleftrightarrow> ts = []"
  by (induction "[32::nat]" ts rule: py_join.induct) (auto simp: wordp_def)

lemma normalize_filename_join:
  "normalize_filename s = py_join [32] (py_split (strip_forbidden s))"
proof (cases "py_split (strip_forbidden s) = []")
  case True
  then show ?thesis by (simp add: normalize_filename_def ustr_space py_strip_Nil)
next
  case False
  then show ?thesis
    using join_shape[of "py_split (strip_forbidden s)"] py_split_words
    by (simp add: normalize_filename_def ustr_space strip_clean)
qed

lemma normalize_filename_chars:
  assumes "c \<in> set (normalize_filename s)" shows "\<not> forbidden c"
proof -
  from assms join_chars[of "py_split (strip_forbidden s)"]
  consider "c = 32" | t where "t \<in> set (py_split (strip_forbidden s))" "c \<in> set t"
    by (auto simp: normalize_filename_join)
  then show ?thesis
  proof cases
    case 1 then show ?thesis by (simp add: not_forbidden_32)
  next
    case 2
    then have "c \<in> set (strip_forbidden s)"
      using split_from_chars[of t "[]" "strip_forbidden s"] by (auto simp: py_split_def)
    then show ?thesis by (simp add: strip_forbidden_def)
  qed
qed

lemma strip_forbidden_id: "\<forall>c\<in>set r. \<not> forbidden c \<Longrightarrow> strip_forbidden r = r"
  by (simp add: strip_forbidden_def)


text \<open>
  Claim C5. The sanitizer is idempotent: for every string \<open>x\<close>, sanitizing the result of
  \<open>normalize_filename x\<close> again gives the same string.
\<close>

theorem normalize_filename_idempotent:
  "normalize_filename (normalize_filename x) = normalize_filename x"
proof -
  let ?ts = "py_split (strip_forbidden x)"
  have w: "\<forall>t\<in>set ?ts. wordp t" using py_split_words by blast
  have "strip_forbidden (normalize_filename x) = normalize_filename x"
    using normalize_filename_chars by (intro strip_forbidden_id) blast
  then have "normalize_filename (normalize_filename x) = py_join [32] (py_split (py_join [32] ?ts))"
    by (simp add: normalize_filename_join[of "normalize_filename x"]) (simp add: normalize_filename_join)
  also have "py_split (py_join [32] ?ts) = ?ts"
    using w by (rule py_split_join)
  finally show ?thesis by (simp add: normalize_filename_join)
qed


text \<open>
  Claim C6. For every string \<open>s\<close>, \<open>normalize_filename s\<close> contains none of the ten
  characters \<^verbatim>\<open>< > : " / \ | ? * '\<close> (code points 60, 62, 58, 34, 47, 92, 124, 63, 42
  and 39), neither starts nor ends with whitespace, and has no two whitespace characters
  next to each other.
\<close>

theorem normalize_filename_clean:
  "set (normalize_filename s) \<inter> {60, 62, 58, 34, 47, 92, 124, 63, 42, 39} = {} \<and>
   (normalize_filename s \<noteq> [] \<longrightarrow>
      \<not> is_space (hd (normalize_filename s)) \<and> \<not> is_space (last (normalize_filename s))) \<and>
   (\<forall>i. Suc i < length (normalize_filename s) \<longrightarrow>
      \<not> (is_space (normalize_filename s ! i) \<and> is_space (normalize_filename s ! Suc i)))"
proof -
  let ?ts = "py_split (strip_forbidden s)"
  have w: "\<forall>t\<in>set ?ts. wordp t" using py_split_words by blast
  have 1: "set (normalize_filename s) \<inter> {60, 62, 58, 34, 47, 92, 124, 63, 42, 39} = {}"
    using normalize_filename_chars[of _ s] by (auto simp: forbidden_def)
  have 2: "normalize_filename s \<noteq> [] \<longrightarrow>
      \<not> is_space (hd (normalize_filename s)) \<and> \<not> is_space (last (normalize_filename s))"
    using join_shape[OF w] by (cases "?ts = []") (simp_all add: normalize_filename_join)
  have "\<not> adjacent_spaces (normalize_filename s)"
    using join_shape[OF w] by (cases "?ts = []") (simp_all add: normalize_filename_join)
  then have 3: "\<forall>i. Suc i < length (normalize_filename s) \<longrightarrow>
      \<not> (is_space (normalize_filename s ! i) \<and> is_space (normalize_filename s ! Suc i))"
    by (simp add: adjacent_spaces_nth)
  from 1 2 3 show ?thesis by blast
qed


theorem normalize_filename_clean_witness:
  "normalize_filename (ustr ''  a<b   c:  d '') = ustr ''ab c d'' \<and>
   normalize_filename (ustr ''  a<b   c:  d '') \<noteq> [] \<and>
   \<not> is_space (hd (normalize_filename (ustr ''  a<b   c:  d ''))) \<and>
   \<not> is_space (last (normalize_filename (ustr ''  a<b   c:  d ''))) \<and>
   Suc 1 < length (normalize_filename (ustr ''  a<b   c:  d '')) \<and>
   \<not> (is_space (normalize_filename (ustr ''  a<b   c:  d '') ! 1) \<and>
      is_space (normalize_filename (ustr ''  a<b   c:  d '') ! Suc 1))"
proof -
  have e: "normalize_filename (ustr ''  a<b   c:  d '') = ustr ''ab c d''"
    by (simp add: normalize_filename_def ustr_def strip_forbidden_def forbidden_def
        py_split_def py_strip_def is_space_def)
  have n: "normalize_filename (ustr ''  a<b   c:  d '') \<noteq> []"
    using e by (simp add: ustr_def)
  have l: "Suc 1 < length (normalize_filename (ustr ''  a<b   c:  d ''))"
    using e by (simp add: ustr_def)
  from normalize_filename_clean[of "ustr ''  a<b   c:  d ''"] e n l show ?thesis
    by blast
qed

section \<open>Requests and files\<close>

lemma get_ok_raises:
  "raises r \<Longrightarrow> get_ok r rq w = (Inl RequestException, log_request rq w)"
  by (auto simp: raises_def get_ok_def requests_get_def raise_for_status_def split: response.splits)

lemma get_ok_Response:
  "\<not> raises (Response st b) \<Longrightarrow> get_ok (Response st b) rq w = (Inr (st, b), log_request rq w)"
  by (auto simp: raises_def get_ok_def requests_get_def raise_for_status_def)

lemma sent_simps [simp]:
  "sent (log_request rq w) = Suc (sent w)"
  "sent (print m w) = sent w"
  "sent (sleep n w) = sent w"
  by (simp_all add: sent_def log_request_def print_def sleep_def)

lemma world_simps [simp]:
  "requests_log (log_request rq w) = requests_log w @ [rq]"
  "requests_log (print m w) = requests_log w"
  "requests_log (sleep n w) = requests_log w"
  "files (log_request rq w) = files w"
  "files (print m w) = files w"
  "files (sleep n w) = files w"
  "stdout (log_request rq w) = stdout w"
  "stdout (print m w) = stdout w @ [m]"
  "stdout (sleep n w) = stdout w"
  by (simp_all add: log_request_def print_def sleep_def)

lemma path_exists_simps [simp]:
  "path_exists (log_request rq w) p = path_exists w p"
  "path_exists (sleep n w) p = path_exists w p"
  by (simp_all add: path_exists_def)

lemma track_try_raises:
  "raises (download_api env (sent w) i) \<Longrightarrow>
   track_try env i w = (Inl RequestException, log_request (GetDownload i) w)"
  by (simp add: track_try_def get_ok_raises)

lemma track_try_ok:
  "download_api env (sent w) i = Response st b \<Longrightarrow> \<not> raises (Response st b) \<Longrightarrow>
   track_try env i w = (Inr b, log_request (GetDownload i) w)"
  by (simp add: track_try_def get_ok_Response)

lemma persist_raises:
  "\<not> path_exists w (path_join outpath (normalize_filename name @ ustr ''.mp3'')) \<Longrightarrow>
   raises (audio_api env (sent w) i) \<Longrightarrow>
   persist_audio_file env name i outpath w = (Inl RequestException, log_request (GetAudio i) w)"
  by (simp add: persist_audio_file_def get_ok_raises)

lemma raises_Response: "raises (Response st b) \<longleftrightarrow> 400 \<le> st \<and> st < 600"
  by (simp add: raises_def)

lemma persist_written:
  "\<not> path_exists w (path_join outpath (normalize_filename name @ ustr ''.mp3'')) \<Longrightarrow>
   audio_api env (sent w) i = Response 200 content \<Longrightarrow>
   \<not> bad_path (path_join outpath (normalize_filename name @ ustr ''.mp3'')) \<Longrightarrow>
   open_wb env (path_join outpath (normalize_filename name @ ustr ''.mp3'')) = WriteOk \<Longrightarrow>
   persist_audio_file env name i outpath w =
     (Inr True, (log_request (GetAudio i) w)
        \<lparr>files := (files w)(path_join outpath (normalize_filename name @ ustr ''.mp3'') \<mapsto> File content)\<rparr>)"
  by (simp add: persist_audio_file_def get_ok_Response raises_Response write_file_def)

lemma sample_facts:
  "sent world0 = 0"
  "resource_id track_link = ustr ''t1''"
  "tid song_a = ustr ''t1''"
  "\<not> path_exists world0 p"
  "requests_log world0 = []"
  "files world0 = (\<lambda>p. None)"
  by (simp_all add: sent_def world0_def resource_id_def track_link_def ustr_def song_a_def
      path_exists_def)

lemma flaky_facts:
  "download_api flaky n i = (if n < 2 then NoResponse else Response 200 answer_a)"
  "audio_api flaky n i = (if n < 2 then Response 503 [] else Response 200 [1, 2, 3])"
  "open_wb flaky p = WriteOk"
  "album_api flaky n i = (if n < 2 then NoResponse else Response 200 lp)"
  "album_tracks_api flaky n i = Response 200 lp_tracks"
  "playlist_api flaky n i = (if n < 2 then Response 500 mix else Response 200 mix)"
  "playlist_tracks_api flaky n i off = Response 200 short_page"
  by (simp_all add: flaky_def offline_def)

lemma offline_facts:
  "download_api offline n i = NoResponse"
  "audio_api offline n i = NoResponse"
  "open_wb offline p = WriteOk"
  "album_api offline n i = NoResponse"
  "playlist_api offline n i = NoResponse"
  by (simp_all add: offline_def)

lemma persist_existing:
  "path_exists w (target_path outpath track) \<Longrightarrow>
   persist_audio_file env (trackname_of track) (tid track) outpath w = (Inr False, w)"
  by (simp add: persist_audio_file_def target_path_def)

lemma path_exists_print [simp]: "path_exists (print m w) p = path_exists w p"
  by (simp add: path_exists_def)


text \<open>
  Claim C1. If the file \<open>normalize_filename (title - artists)\<close> with the suffix \<open>.mp3\<close>
  exists under the output directory, \<open>persist_audio_file\<close> returns \<open>False\<close> (skipped) in
  the unchanged world, and \<open>download_track\<close> reports the item as skipped and returns
  \<open>True\<close>, sends no request and leaves every file as it was.
\<close>

theorem existing_file_skipped:
  assumes "files w (target_path outpath track) = Some (File content)" and "0 < max_retries"
  shows "persist_audio_file env (trackname_of track) (tid track) outpath w = (Inr False, w) \<and>
         fst (download_track env track outpath max_retries w) = Inr (Some True) \<and>
         requests_log (snd (download_track env track outpath max_retries w)) = requests_log w \<and>
         files (snd (download_track env track outpath max_retries w)) = files w \<and>
         stdout (snd (download_track env track outpath max_retries w)) =
           stdout w @ [Downloading (trackname_of track), SkippedExists]"
proof -
  from assms(1) have ex: "path_exists w (target_path outpath track)"
    by (simp add: path_exists_def)
  from assms(2) obtain k where k: "max_retries = Suc k" by (cases max_retries) auto
  have ex': "path_exists (print (Downloading (trackname_of track)) w) (target_path outpath track)"
    using ex by simp
  have "download_track env track outpath max_retries w =
          (Inr (Some True), print SkippedExists (print (Downloading (trackname_of track)) w))"
    by (simp add: download_track_def k persist_existing[OF ex'])
  then show ?thesis using persist_existing[OF ex] by (simp add: print_def)
qed



theorem existing_file_skipped_witness:
  "target_path (ustr ''/music'') song_a = ustr ''/music/Song - Band.mp3'' \<and>
   files (world0\<lparr>files := (files world0)(ustr ''/music/Song - Band.mp3'' \<mapsto> File [1, 2, 3])\<rparr>)
     (target_path (ustr ''/music'') song_a) = Some (File [1, 2, 3]) \<and>
   fst (download_track offline song_a (ustr ''/music'') 3
     (world0\<lparr>files := (files world0)(ustr ''/music/Song - Band.mp3'' \<mapsto> File [1, 2, 3])\<rparr>))
     = Inr (Some True) \<and>
   requests_log (snd (download_track offline song_a (ustr ''/music'') 3
     (world0\<lparr>files := (files world0)(ustr ''/music/Song - Band.mp3'' \<mapsto> File [1, 2, 3])\<rparr>)))
     = []"
proof -
  have p: "target_path (ustr ''/music'') song_a = ustr ''/music/Song - Band.mp3''"
    by (simp add: target_path_def trackname_of_def song_a_def path_join_def
        normalize_filename_def ustr_def strip_forbidden_def forbidden_def
        py_split_def py_strip_def is_space_def)
  have h: "files (world0\<lparr>files := (files world0)(ustr ''/music/Song - Band.mp3'' \<mapsto> File [1, 2, 3])\<rparr>)
             (target_path (ustr ''/music'') song_a) = Some (File [1, 2, 3])"
    by (simp add: p)
  have l: "requests_log (world0\<lparr>files := (files world0)(ustr ''/music/Song - Band.mp3'' \<mapsto> File [1, 2, 3])\<rparr>) = []"
    by (simp add: world0_def)
  from existing_file_skipped[OF h, of 3 offline] p h l show ?thesis
    by simp
qed


section \<open>Pagination\<close>

lemma fetch_pages_serves:
  "serves env i (sent w) off pages \<Longrightarrow>
   fetch_pages env i off acc w =
     Some (Inr (acc @ concat (map pj_trackList pages)),
           foldl (\<lambda>w' off'. log_request (GetPlaylistTracks i off') w') w (offsets off pages))"
proof (induction pages arbitrary: off acc w)
  case Nil
  then show ?case by simp
next
  case (Cons p ps)
  from Cons.prems obtain st where
    r: "playlist_tracks_api env (sent w) i off = Response st p" "\<not> raises (Response st p)"
    by (auto simp: raises_def split: response.splits)
  have g: "get_ok (playlist_tracks_api env (sent w) i off) (GetPlaylistTracks i off) w =
             (Inr (st, p), log_request (GetPlaylistTracks i off) w)"
    by (simp add: r get_ok_Response)
  show ?case
  proof (cases "ps = []")
    case True
    with Cons.prems have "\<not> truthy (pj_nextOffset p)" by simp
    with True g show ?thesis by (subst fetch_pages.simps) simp
  next
    case False
    with Cons.prems have t: "truthy (pj_nextOffset p)"
      and s: "serves env i (sent (log_request (GetPlaylistTracks i off) w)) (pj_nextOffset p) ps"
      by simp_all
    from Cons.IH[OF s, of "acc @ pj_trackList p"] t g show ?thesis
      by (subst fetch_pages.simps) simp
  qed
qed

lemma foldl_log_request:
  "requests_log (foldl (\<lambda>w' x. log_request (f x) w') w xs) = requests_log w @ map f xs"
  by (induction xs arbitrary: w) simp_all

lemma length_offsets: "length (offsets off pages) = length pages"
  by (induction pages arbitrary: off) simp_all

lemma playlist_try_served:
  assumes "playlist_api env (sent w) i = Response st meta" and "\<not> raises (Response st meta)"
    and "serves env i (Suc (sent w)) (JInt 0) pages"
  shows "playlist_try env i w =
     Some (Inr (map track_of_json (concat (map pj_trackList pages)), cj_title meta),
           foldl (\<lambda>w' off'. log_request (GetPlaylistTracks i off') w')
             (print GettingPlaylistSongs (print (PlaylistBy (cj_title meta) (cj_artists meta))
                (log_request (GetPlaylist i) w)))
             (offsets (JInt 0) pages))"
proof -
  let ?w2 = "print GettingPlaylistSongs (print (PlaylistBy (cj_title meta) (cj_artists meta))
                (log_request (GetPlaylist i) w))"
  have "sent ?w2 = Suc (sent w)" by simp
  with assms(3) have "serves env i (sent ?w2) (JInt 0) pages" by simp
  from fetch_pages_serves[OF this, of "[]"] assms(1,2) show ?thesis
    by (simp add: playlist_try_def get_ok_Response Let_def)
qed

text \<open>
  Claim C3. When the playlist's metadata request succeeds and the page requests are
  served with the pages \<open>pages\<close>, the last of which is the first to name no next offset,
  \<open>fetch_playlist_metadata\<close> returns: it asks for offset 0 first and then for each
  offset a page named, makes exactly one page request for each page, and its tracks are
  those of the pages, concatenated in the order fetched. For pages of 100, 100 and 20
  tracks these are 220 tracks.
\<close>

theorem playlist_pages_concatenated:
  assumes "playlist_api env (sent w) (resource_id link) = Response st meta"
    and "\<not> raises (Response st meta)"
    and "serves env (resource_id link) (Suc (sent w)) (JInt 0) pages"
  shows "map_option fst (fetch_playlist_metadata env link 3 w) =
           Some (Inr (Some (map track_of_json (concat (map pj_trackList pages)), cj_title meta))) \<and>
         map_option (requests_log \<circ> snd) (fetch_playlist_metadata env link 3 w) =
           Some (requests_log w @ GetPlaylist (resource_id link) #
                 map (GetPlaylistTracks (resource_id link)) (offsets (JInt 0) pages)) \<and>
         hd (offsets (JInt 0) pages) = JInt 0 \<and>
         length (offsets (JInt 0) pages) = length pages"
proof -
  note t = playlist_try_served[OF assms]
  have 1: "map_option fst (fetch_playlist_metadata env link 3 w) =
           Some (Inr (Some (map track_of_json (concat (map pj_trackList pages)), cj_title meta)))"
    by (simp add: fetch_playlist_metadata_def numeral_3_eq_3 t)
  have 2: "map_option (requests_log \<circ> snd) (fetch_playlist_metadata env link 3 w) =
           Some (requests_log w @ GetPlaylist (resource_id link) #
                 map (GetPlaylistTracks (resource_id link)) (offsets (JInt 0) pages))"
    by (simp add: fetch_playlist_metadata_def numeral_3_eq_3 t foldl_log_request)
  from assms(3) have 3: "hd (offsets (JInt 0) pages) = JInt 0"
    by (cases pages) simp_all
  have 4: "length (offsets (JInt 0) pages) = length pages"
    by (rule length_offsets)
  from 1 2 3 4 show ?thesis by blast
qed

lemma paged_facts:
  "playlist_api paged n i = Response 200 \<lparr>cj_title = ustr ''Mix'', cj_artists = ustr ''me''\<rparr>"
  "playlist_tracks_api paged n i (JInt 0) = Response 200 page1"
  "playlist_tracks_api paged n i (JInt 100) = Response 200 page2"
  "playlist_tracks_api paged n i (JInt 200) = Response 200 page3"
  by (simp_all add: paged_def offline_def)

lemma page_facts:
  "pj_nextOffset page1 = JInt 100" "pj_nextOffset page2 = JInt 200" "pj_nextOffset page3 = JInt 0"
  "length (pj_trackList page1) = 100" "length (pj_trackList page2) = 100"
  "length (pj_trackList page3) = 20"
  by (simp_all add: page1_def page2_def page3_def)

theorem playlist_pages_concatenated_witness:
  "serves paged (ustr ''p1'') (Suc (sent world0)) (JInt 0) [page1, page2, page3] \<and>
   map (length \<circ> pj_trackList) [page1, page2, page3] = [100, 100, 20] \<and>
   map_option fst (fetch_playlist_metadata paged playlist_link 3 world0) =
     Some (Inr (Some (map track_of_json (pj_trackList page1 @ pj_trackList page2 @ pj_trackList page3),
                      ustr ''Mix''))) \<and>
   length (map track_of_json (pj_trackList page1 @ pj_trackList page2 @ pj_trackList page3)) = 220 \<and>
   map_option (requests_log \<circ> snd) (fetch_playlist_metadata paged playlist_link 3 world0) =
     Some [GetPlaylist (ustr ''p1''), GetPlaylistTracks (ustr ''p1'') (JInt 0),
           GetPlaylistTracks (ustr ''p1'') (JInt 100), GetPlaylistTracks (ustr ''p1'') (JInt 200)]"
proof -
  have i: "resource_id playlist_link = ustr ''p1''"
    by (simp add: resource_id_def playlist_link_def ustr_def)
  have s: "serves paged (resource_id playlist_link) (Suc (sent world0)) (JInt 0) [page1, page2, page3]"
    by (simp add: i paged_facts page_facts)
  have m: "playlist_api paged (sent world0) (resource_id playlist_link) =
             Response 200 \<lparr>cj_title = ustr ''Mix'', cj_artists = ustr ''me''\<rparr>"
    by (simp add: paged_facts)
  have r: "\<not> raises (Response 200 \<lparr>cj_title = ustr ''Mix'', cj_artists = ustr ''me''\<rparr>)"
    by (simp add: raises_def)
  note t = playlist_pages_concatenated[OF m r s]
  from t have a: "map_option fst (fetch_playlist_metadata paged playlist_link 3 world0) =
     Some (Inr (Some (map track_of_json (pj_trackList page1 @ pj_trackList page2 @ pj_trackList page3),
                      ustr ''Mix'')))"
    by simp
  from t have b: "map_option (requests_log \<circ> snd) (fetch_playlist_metadata paged playlist_link 3 world0) =
     Some [GetPlaylist (ustr ''p1''), GetPlaylistTracks (ustr ''p1'') (JInt 0),
           GetPlaylistTracks (ustr ''p1'') (JInt 100), GetPlaylistTracks (ustr ''p1'') (JInt 200)]"
    by (simp add: i page_facts world0_def)
  from s a b show ?thesis
    by (simp add: i page_facts)
qed


text \<open>A page request that fails ends the loop with the exception, whatever was
  fetched before.\<close>

lemma fetch_pages_breaks_off:
  "breaks_off env i (sent w) off pages \<Longrightarrow>
   fetch_pages env i off acc w =
     Some (Inl RequestException,
           foldl (\<lambda>w' off'. log_request (GetPlaylistTracks i off') w') w
             (off # map pj_nextOffset pages))"
proof (induction pages arbitrary: off acc w)
  case Nil
  then have "get_ok (playlist_tracks_api env (sent w) i off) (GetPlaylistTracks i off) w =
      (Inl RequestException, log_request (GetPlaylistTracks i off) w)"
    by (simp add: get_ok_raises)
  then show ?case by (subst fetch_pages.simps) simp
next
  case (Cons p ps)
  from Cons.prems obtain st where
    r: "playlist_tracks_api env (sent w) i off = Response st p" "\<not> raises (Response st p)"
    by (auto simp: raises_def split: response.splits)
  have g: "get_ok (playlist_tracks_api env (sent w) i off) (GetPlaylistTracks i off) w =
             (Inr (st, p), log_request (GetPlaylistTracks i off) w)"
    by (simp add: r get_ok_Response)
  from Cons.prems have t: "truthy (pj_nextOffset p)"
    and s: "breaks_off env i (sent (log_request (GetPlaylistTracks i off) w)) (pj_nextOffset p) ps"
    by simp_all
  from Cons.IH[OF s, of "acc @ pj_trackList p"] t g show ?case
    by (subst fetch_pages.simps) simp
qed

lemma playlist_try_raises:
  "raises (playlist_api env (sent w) i) \<Longrightarrow>
   playlist_try env i w = Some (Inl RequestException, log_request (GetPlaylist i) w)"
  by (simp add: playlist_try_def get_ok_raises)

lemma playlist_try_breaks_off:
  assumes "playlist_api env (sent w) i = Response st meta" and "\<not> raises (Response st meta)"
    and "breaks_off env i (Suc (sent w)) (JInt 0) pages"
  shows "playlist_try env i w =
     Some (Inl RequestException,
           foldl (\<lambda>w' off'. log_request (GetPlaylistTracks i off') w')
             (print GettingPlaylistSongs (print (PlaylistBy (cj_title meta) (cj_artists meta))
                (log_request (GetPlaylist i) w)))
             (JInt 0 # map pj_nextOffset pages))"
proof -
  let ?w2 = "print GettingPlaylistSongs (print (PlaylistBy (cj_title meta) (cj_artists meta))
                (log_request (GetPlaylist i) w))"
  have "sent ?w2 = Suc (sent w)" by simp
  with assms(3) have "breaks_off env i (sent ?w2) (JInt 0) pages" by simp
  from fetch_pages_breaks_off[OF this, of "[]"] assms(1,2) show ?thesis
    by (simp add: playlist_try_def get_ok_Response Let_def)
qed

lemma album_try_raises:
  "raises (album_api env (sent w) i) \<Longrightarrow>
   album_try env i w = (Inl RequestException, log_request (GetAlbum i) w)"
  by (simp add: album_try_def get_ok_raises)

lemma album_try_tracks_raise:
  assumes "album_api env (sent w) i = Response st a" and "\<not> raises (Response st a)"
    and "raises (album_tracks_api env (Suc (sent w)) i)"
  shows "album_try env i w =
     (Inl RequestException,
      log_request (GetAlbumTracks i)
        (print GettingAlbumSongs (print (AlbumBy (cj_title a) (cj_artists a))
           (log_request (GetAlbum i) w))))"
  using assms by (simp add: album_try_def get_ok_Response get_ok_raises Let_def)

lemma album_try_ok:
  assumes "album_api env (sent w) i = Response st a" and "\<not> raises (Response st a)"
    and "album_tracks_api env (Suc (sent w)) i = Response st' ts" and "\<not> raises (Response st' ts)"
  shows "album_try env i w =
     (Inr (map (album_track_of_json (cj_title a)) ts, cj_title a),
      log_request (GetAlbumTracks i)
        (print GettingAlbumSongs (print (AlbumBy (cj_title a) (cj_artists a))
           (log_request (GetAlbum i) w))))"
  using assms by (simp add: album_try_def get_ok_Response Let_def)

section \<open>The retry loops\<close>

text \<open>Each of the four loops, unfolded for three attempts: two failed runs of the body
  and a third that returns, and three failed runs.\<close>

lemma track_retry_third:
  assumes "track_try env (resource_id link) w = (Inl RequestException, w1)"
    and "track_try env (resource_id link) (sleep 2 (print (RetryTrack 2 3) w1)) =
           (Inl RequestException, w2)"
    and "track_try env (resource_id link) (sleep 2 (print (RetryTrack 3 3) w2)) = (Inr r, w3)"
  shows "fetch_track_metadata env link 3 w = (Inr (Some r), w3)"
  using assms by (simp add: fetch_track_metadata_def numeral_3_eq_3 numeral_2_eq_2)

lemma track_retry_exhausted:
  assumes "track_try env (resource_id link) w = (Inl RequestException, w1)"
    and "track_try env (resource_id link) (sleep 2 (print (RetryTrack 2 3) w1)) =
           (Inl RequestException, w2)"
    and "track_try env (resource_id link) (sleep 2 (print (RetryTrack 3 3) w2)) =
           (Inl RequestException, w3)"
  shows "fetch_track_metadata env link 3 w = (Inr None, print (FailedTrack 3) w3)"
  using assms by (simp add: fetch_track_metadata_def numeral_3_eq_3 numeral_2_eq_2)

lemma album_retry_third:
  assumes "album_try env (resource_id link) w = (Inl RequestException, w1)"
    and "album_try env (resource_id link) (sleep 2 (print (RetryAlbum 2 3) w1)) =
           (Inl RequestException, w2)"
    and "album_try env (resource_id link) (sleep 2 (print (RetryAlbum 3 3) w2)) = (Inr r, w3)"
  shows "fetch_album_metadata env link 3 w = (Inr (Some r), w3)"
  using assms by (simp add: fetch_album_metadata_def numeral_3_eq_3 numeral_2_eq_2)

lemma album_retry_exhausted:
  assumes "album_try env (resource_id link) w = (Inl RequestException, w1)"
    and "album_try env (resource_id link) (sleep 2 (print (RetryAlbum 2 3) w1)) =
           (Inl RequestException, w2)"
    and "album_try env (resource_id link) (sleep 2 (print (RetryAlbum 3 3) w2)) =
           (Inl RequestException, w3)"
  shows "fetch_album_metadata env link 3 w = (Inr None, print (FailedAlbum 3) w3)"
  using assms by (simp add: fetch_album_metadata_def numeral_3_eq_3 numeral_2_eq_2)

lemma playlist_retry_third:
  assumes "playlist_try env (resource_id link) w = Some (Inl RequestException, w1)"
    and "playlist_try env (resource_id link) (sleep 2 (print (RetryPlaylist 2 3) w1)) =
           Some (Inl RequestException, w2)"
    and "playlist_try env (resource_id link) (sleep 2 (print (RetryPlaylist 3 3) w2)) =
           Some (Inr r, w3)"
  shows "fetch_playlist_metadata env link 3 w = Some (Inr (Some r), w3)"
  using assms by (simp add: fetch_playlist_metadata_def numeral_3_eq_3 numeral_2_eq_2)

lemma playlist_retry_exhausted:
  assumes "playlist_try env (resource_id link) w = Some (Inl RequestException, w1)"
    and "playlist_try env (resource_id link) (sleep 2 (print (RetryPlaylist 2 3) w1)) =
           Some (Inl RequestException, w2)"
    and "playlist_try env (resource_id link) (sleep 2 (print (RetryPlaylist 3 3) w2)) =
           Some (Inl RequestException, w3)"
  shows "fetch_playlist_metadata env link 3 w = Some (Inr None, print (FailedPlaylist 3) w3)"
  using assms by (simp add: fetch_playlist_metadata_def numeral_3_eq_3 numeral_2_eq_2)

lemma download_retry_third:
  assumes "persist_audio_file env (trackname_of track) (tid track) outpath
             (print (Downloading (trackname_of track)) w) = (Inl RequestException, w1)"
    and "persist_audio_file env (trackname_of track) (tid track) outpath
             (sleep 2 (print (RetryDownload 2 3) w1)) = (Inl RequestException, w2)"
    and "persist_audio_file env (trackname_of track) (tid track) outpath
             (sleep 2 (print (RetryDownload 3 3) w2)) = (Inr b, w3)"
  shows "download_track env track outpath 3 w =
           (Inr (Some True), print (if b then Downloaded else SkippedExists) w3)"
  using assms by (simp add: download_track_def Let_def numeral_3_eq_3 numeral_2_eq_2)

lemma download_retry_exhausted:
  assumes "persist_audio_file env (trackname_of track) (tid track) outpath
             (print (Downloading (trackname_of track)) w) = (Inl RequestException, w1)"
    and "persist_audio_file env (trackname_of track) (tid track) outpath
             (sleep 2 (print (RetryDownload 2 3) w1)) = (Inl RequestException, w2)"
    and "persist_audio_file env (trackname_of track) (tid track) outpath
             (sleep 2 (print (RetryDownload 3 3) w2)) = (Inl RequestException, w3)"
  shows "download_track env track outpath 3 w = (Inr (Some False), print (FailedDownload 3) w3)"
  using assms by (simp add: download_track_def Let_def numeral_3_eq_3 numeral_2_eq_2)

text \<open>The same for the track and the download loop in terms of what the servers answer.\<close>

lemma fetch_track_third:
  assumes "raises (download_api env (sent w) (resource_id link))"
    and "raises (download_api env (sent w + 1) (resource_id link))"
    and "download_api env (sent w + 2) (resource_id link) = Response st body"
    and "\<not> raises (Response st body)"
  shows "fst (fetch_track_metadata env link 3 w) = Inr (Some body)"
    and "requests_log (snd (fetch_track_metadata env link 3 w)) =
           requests_log w @ replicate 3 (GetDownload (resource_id link))"
  using assms
  by (simp_all add: fetch_track_metadata_def numeral_3_eq_3 numeral_2_eq_2 track_try_raises track_try_ok)

lemma fetch_track_exhausted:
  assumes "raises (download_api env (sent w) (resource_id link))"
    and "raises (download_api env (sent w + 1) (resource_id link))"
    and "raises (download_api env (sent w + 2) (resource_id link))"
  shows "fst (fetch_track_metadata env link 3 w) = Inr None"
    and "requests_log (snd (fetch_track_metadata env link 3 w)) =
           requests_log w @ replicate 3 (GetDownload (resource_id link))"
    and "stdout (snd (fetch_track_metadata env link 3 w)) =
           stdout w @ [RetryTrack 2 3, RetryTrack 3 3, FailedTrack 3]"
  using assms
  by (simp_all add: fetch_track_metadata_def numeral_3_eq_3 numeral_2_eq_2 track_try_raises)

lemma download_track_third:
  assumes "\<not> path_exists w (target_path outpath track)"
    and "raises (audio_api env (sent w) (tid track))"
    and "raises (audio_api env (sent w + 1) (tid track))"
    and "audio_api env (sent w + 2) (tid track) = Response 200 content"
    and "\<not> bad_path (target_path outpath track)"
    and "open_wb env (target_path outpath track) = WriteOk"
  shows "fst (download_track env track outpath 3 w) = Inr (Some True)"
    and "requests_log (snd (download_track env track outpath 3 w)) =
           requests_log w @ replicate 3 (GetAudio (tid track))"
    and "files (snd (download_track env track outpath 3 w)) =
           (files w)(target_path outpath track \<mapsto> File content)"
  using assms
  by (simp_all add: download_track_def Let_def numeral_3_eq_3 numeral_2_eq_2 target_path_def
      persist_raises persist_written)

lemma download_track_exhausted:
  assumes "\<not> path_exists w (target_path outpath track)"
    and "raises (audio_api env (sent w) (tid track))"
    and "raises (audio_api env (sent w + 1) (tid track))"
    and "raises (audio_api env (sent w + 2) (tid track))"
  shows "fst (download_track env track outpath 3 w) = Inr (Some False)"
    and "requests_log (snd (download_track env track outpath 3 w)) =
           requests_log w @ replicate 3 (GetAudio (tid track))"
    and "files (snd (download_track env track outpath 3 w)) = files w"
    and "stdout (snd (download_track env track outpath 3 w)) =
           stdout w @ [Downloading (trackname_of track), RetryDownload 2 3, RetryDownload 3 3,
                       FailedDownload 3]"
  using assms
  by (simp_all add: download_track_def Let_def numeral_3_eq_3 numeral_2_eq_2 target_path_def
      persist_raises)

text \<open>
  Claim C2. Under each of the four retry loops with \<open>max_retries = 3\<close>
  (\<open>fetch_track_metadata\<close>, \<open>fetch_album_metadata\<close>, \<open>fetch_playlist_metadata\<close> and
  \<open>download_track\<close>), an operation that raises \<open>RequestException\<close> on its first two runs
  and returns on the third makes the loop return that success in the world the third run
  left; an operation that raises three times makes the loop report failure (\<open>None\<close>,
  or \<open>False\<close> from \<open>download_track\<close>) in the world the third run left plus the failure
  message, so it is not run a fourth time. The operation is the body of the \<open>try\<close>; a
  retry runs it in the world of the failed run after the retry message and the sleep.
  For the track and the download loop the same is stated by what the servers answer:
  exactly three requests are sent.
\<close>

theorem retry_three_attempts:
  "(track_try env (resource_id link) w = (Inl RequestException, wt1) \<and>
    track_try env (resource_id link) (sleep 2 (print (RetryTrack 2 3) wt1)) =
      (Inl RequestException, wt2) \<and>
    track_try env (resource_id link) (sleep 2 (print (RetryTrack 3 3) wt2)) = (Inr rt, wt3) \<longrightarrow>
      fetch_track_metadata env link 3 w = (Inr (Some rt), wt3)) \<and>
   (track_try env (resource_id link) w = (Inl RequestException, wt1) \<and>
    track_try env (resource_id link) (sleep 2 (print (RetryTrack 2 3) wt1)) =
      (Inl RequestException, wt2) \<and>
    track_try env (resource_id link) (sleep 2 (print (RetryTrack 3 3) wt2)) =
      (Inl RequestException, wt3) \<longrightarrow>
      fetch_track_metadata env link 3 w = (Inr None, print (FailedTrack 3) wt3)) \<and>
   (album_try env (resource_id link) w = (Inl RequestException, wa1) \<and>
    album_try env (resource_id link) (sleep 2 (print (RetryAlbum 2 3) wa1)) =
      (Inl RequestException, wa2) \<and>
    album_try env (resource_id link) (sleep 2 (print (RetryAlbum 3 3) wa2)) = (Inr ra, wa3) \<longrightarrow>
      fetch_album_metadata env link 3 w = (Inr (Some ra), wa3)) \<and>
   (album_try env (resource_id link) w = (Inl RequestException, wa1) \<and>
    album_try env (resource_id link) (sleep 2 (print (RetryAlbum 2 3) wa1)) =
      (Inl RequestException, wa2) \<and>
    album_try env (resource_id link) (sleep 2 (print (RetryAlbum 3 3) wa2)) =
      (Inl RequestException, wa3) \<longrightarrow>
      fetch_album_metadata env link 3 w = (Inr None, print (FailedAlbum 3) wa3)) \<and>
   (playlist_try env (resource_id link) w = Some (Inl RequestException, wp1) \<and>
    playlist_try env (resource_id link) (sleep 2 (print (RetryPlaylist 2 3) wp1)) =
      Some (Inl RequestException, wp2) \<and>
    playlist_try env (resource_id link) (sleep 2 (print (RetryPlaylist 3 3) wp2)) =
      Some (Inr rp, wp3) \<longrightarrow>
      fetch_playlist_metadata env link 3 w = Some (Inr (Some rp), wp3)) \<and>
   (playlist_try env (resource_id link) w = Some (Inl RequestException, wp1) \<and>
    playlist_try env (resource_id link) (sleep 2 (print (RetryPlaylist 2 3) wp1)) =
      Some (Inl RequestException, wp2) \<and>
    playlist_try env (resource_id link) (sleep 2 (print (RetryPlaylist 3 3) wp2)) =
      Some (Inl RequestException, wp3) \<longrightarrow>
      fetch_playlist_metadata env link 3 w = Some (Inr None, print (FailedPlaylist 3) wp3)) \<and>
   (persist_audio_file env (trackname_of track) (tid track) outpath
      (print (Downloading (trackname_of track)) w) = (Inl RequestException, wd1) \<and>
    persist_audio_file env (trackname_of track) (tid track) outpath
      (sleep 2 (print (RetryDownload 2 3) wd1)) = (Inl RequestException, wd2) \<and>
    persist_audio_file env (trackname_of track) (tid track) outpath
      (sleep 2 (print (RetryDownload 3 3) wd2)) = (Inr b, wd3) \<longrightarrow>
      download_track env track outpath 3 w =
        (Inr (Some True), print (if b then Downloaded else SkippedExists) wd3)) \<and>
   (persist_audio_file env (trackname_of track) (tid track) outpath
      (print (Downloading (trackname_of track)) w) = (Inl RequestException, wd1) \<and>
    persist_audio_file env (trackname_of track) (tid track) outpath
      (sleep 2 (print (RetryDownload 2 3) wd1)) = (Inl RequestException, wd2) \<and>
    persist_audio_file env (trackname_of track) (tid track) outpath
      (sleep 2 (print (RetryDownload 3 3) wd2)) = (Inl RequestException, wd3) \<longrightarrow>
      download_track env track outpath 3 w = (Inr (Some False), print (FailedDownload 3) wd3)) \<and>
   (raises (download_api env (sent w) (resource_id link)) \<and>
    raises (download_api env (sent w + 1) (resource_id link)) \<and>
    download_api env (sent w + 2) (resource_id link) = Response st body \<and>
    \<not> raises (Response st body) \<longrightarrow>
      fst (fetch_track_metadata env link 3 w) = Inr (Some body) \<and>
      requests_log (snd (fetch_track_metadata env link 3 w)) =
        requests_log w @ replicate 3 (GetDownload (resource_id link))) \<and>
   (raises (download_api env (sent w) (resource_id link)) \<and>
    raises (download_api env (sent w + 1) (resource_id link)) \<and>
    raises (download_api env (sent w + 2) (resource_id link)) \<longrightarrow>
      fst (fetch_track_metadata env link 3 w) = Inr None \<and>
      requests_log (snd (fetch_track_metadata env link 3 w)) =
        requests_log w @ replicate 3 (GetDownload (resource_id link))) \<and>
   (\<not> path_exists w (target_path outpath track) \<and>
    raises (audio_api env (sent w) (tid track)) \<and>
    raises (audio_api env (sent w + 1) (tid track)) \<and>
    audio_api env (sent w + 2) (tid track) = Response 200 content \<and>
    \<not> bad_path (target_path outpath track) \<and>
    open_wb env (target_path outpath track) = WriteOk \<longrightarrow>
      fst (download_track env track outpath 3 w) = Inr (Some True) \<and>
      requests_log (snd (download_track env track outpath 3 w)) =
        requests_log w @ replicate 3 (GetAudio (tid track)) \<and>
      files (snd (download_track env track outpath 3 w)) =
        (files w)(target_path outpath track \<mapsto> File content)) \<and>
   (\<not> path_exists w (target_path outpath track) \<and>
    raises (audio_api env (sent w) (tid track)) \<and>
    raises (audio_api env (sent w + 1) (tid track)) \<and>
    raises (audio_api env (sent w + 2) (tid track)) \<longrightarrow>
      fst (download_track env track outpath 3 w) = Inr (Some False) \<and>
      requests_log (snd (download_track env track outpath 3 w)) =
        requests_log w @ replicate 3 (GetAudio (tid track)) \<and>
      files (snd (download_track env track outpath 3 w)) = files w)"
proof -
  have t3: "track_try env (resource_id link) w = (Inl RequestException, wt1) \<and>
    track_try env (resource_id link) (sleep 2 (print (RetryTrack 2 3) wt1)) =
      (Inl RequestException, wt2) \<and>
    track_try env (resource_id link) (sleep 2 (print (RetryTrack 3 3) wt2)) = (Inr rt, wt3) \<longrightarrow>
      fetch_track_metadata env link 3 w = (Inr (Some rt), wt3)"
    using track_retry_third[of env link w wt1 wt2 rt wt3] by simp
  have tx: "track_try env (resource_id link) w = (Inl RequestException, wt1) \<and>
    track_try env (resource_id link) (sleep 2 (print (RetryTrack 2 3) wt1)) =
      (Inl RequestException, wt2) \<and>
    track_try env (resource_id link) (sleep 2 (print (RetryTrack 3 3) wt2)) =
      (Inl RequestException, wt3) \<longrightarrow>
      fetch_track_metadata env link 3 w = (Inr None, print (FailedTrack 3) wt3)"
    using track_retry_exhausted[of env link w wt1 wt2 wt3] by simp
  have a3: "album_try env (resource_id link) w = (Inl RequestException, wa1) \<and>
    album_try env (resource_id link) (sleep 2 (print (RetryAlbum 2 3) wa1)) =
      (Inl RequestException, wa2) \<and>
    album_try env (resource_id link) (sleep 2 (print (RetryAlbum 3 3) wa2)) = (Inr ra, wa3) \<longrightarrow>
      fetch_album_metadata env link 3 w = (Inr (Some ra), wa3)"
    using album_retry_third[of env link w wa1 wa2 ra wa3] by simp
  have ax: "album_try env (resource_id link) w = (Inl RequestException, wa1) \<and>
    album_try env (resource_id link) (sleep 2 (print (RetryAlbum 2 3) wa1)) =
      (Inl RequestException, wa2) \<and>
    album_try env (resource_id link) (sleep 2 (print (RetryAlbum 3 3) wa2)) =
      (Inl RequestException, wa3) \<longrightarrow>
      fetch_album_metadata env link 3 w = (Inr None, print (FailedAlbum 3) wa3)"
    using album_retry_exhausted[of env link w wa1 wa2 wa3] by simp
  have p3: "playlist_try env (resource_id link) w = Some (Inl RequestException, wp1) \<and>
    playlist_try env (resource_id link) (sleep 2 (print (RetryPlaylist 2 3) wp1)) =
      Some (Inl RequestException, wp2) \<and>
    playlist_try env (resource_id link) (sleep 2 (print (RetryPlaylist 3 3) wp2)) =
      Some (Inr rp, wp3) \<longrightarrow>
      fetch_playlist_metadata env link 3 w = Some (Inr (Some rp), wp3)"
    using playlist_retry_third[of env link w wp1 wp2 rp wp3] by simp
  have px: "playlist_try env (resource_id link) w = Some (Inl RequestException, wp1) \<and>
    playlist_try env (resource_id link) (sleep 2 (print (RetryPlaylist 2 3) wp1)) =
      Some (Inl RequestException, wp2) \<and>
    playlist_try env (resource_id link) (sleep 2 (print (RetryPlaylist 3 3) wp2)) =
      Some (Inl RequestException, wp3) \<longrightarrow>
      fetch_playlist_metadata env link 3 w = Some (Inr None, print (FailedPlaylist 3) wp3)"
    using playlist_retry_exhausted[of env link w wp1 wp2 wp3] by simp
  have d3: "persist_audio_file env (trackname_of track) (tid track) outpath
      (print (Downloading (trackname_of track)) w) = (Inl RequestException, wd1) \<and>
    persist_audio_file env (trackname_of track) (tid track) outpath
      (sleep 2 (print (RetryDownload 2 3) wd1)) = (Inl RequestException, wd2) \<and>
    persist_audio_file env (trackname_of track) (tid track) outpath
      (sleep 2 (print (RetryDownload 3 3) wd2)) = (Inr b, wd3) \<longrightarrow>
      download_track env track outpath 3 w =
        (Inr (Some True), print (if b then Downloaded else SkippedExists) wd3)"
    using download_retry_third[of env track outpath w wd1 wd2 b wd3] by simp
  have dx: "persist_audio_file env (trackname_of track) (tid track) outpath
      (print (Downloading (trackname_of track)) w) = (Inl RequestException, wd1) \<and>
    persist_audio_file env (trackname_of track) (tid track) outpath
      (sleep 2 (print (RetryDownload 2 3) wd1)) = (Inl RequestException, wd2) \<and>
    persist_audio_file env (trackname_of track) (tid track) outpath
      (sleep 2 (print (RetryDownload 3 3) wd2)) = (Inl RequestException, wd3) \<longrightarrow>
      download_track env track outpath 3 w = (Inr (Some False), print (FailedDownload 3) wd3)"
    using download_retry_exhausted[of env track outpath w wd1 wd2 wd3] by simp
  have e1: "raises (download_api env (sent w) (resource_id link)) \<and>
    raises (download_api env (sent w + 1) (resource_id link)) \<and>
    download_api env (sent w + 2) (resource_id link) = Response st body \<and>
    \<not> raises (Response st body) \<longrightarrow>
      fst (fetch_track_metadata env link 3 w) = Inr (Some body) \<and>
      requests_log (snd (fetch_track_metadata env link 3 w)) =
        requests_log w @ replicate 3 (GetDownload (resource_id link))"
    using fetch_track_third[of env w link st body] by simp
  have e2: "raises (download_api env (sent w) (resource_id link)) \<and>
    raises (download_api env (sent w + 1) (resource_id link)) \<and>
    raises (download_api env (sent w + 2) (resource_id link)) \<longrightarrow>
      fst (fetch_track_metadata env link 3 w) = Inr None \<and>
      requests_log (snd (fetch_track_metadata env link 3 w)) =
        requests_log w @ replicate 3 (GetDownload (resource_id link))"
    using fetch_track_exhausted[of env w link] by simp
  have e3: "\<not> path_exists w (target_path outpath track) \<and>
    raises (audio_api env (sent w) (tid track)) \<and>
    raises (audio_api env (sent w + 1) (tid track)) \<and>
    audio_api env (sent w + 2) (tid track) = Response 200 content \<and>
    \<not> bad_path (target_path outpath track) \<and>
    open_wb env (target_path outpath track) = WriteOk \<longrightarrow>
      fst (download_track env track outpath 3 w) = Inr (Some True) \<and>
      requests_log (snd (download_track env track outpath 3 w)) =
        requests_log w @ replicate 3 (GetAudio (tid track)) \<and>
      files (snd (download_track env track outpath 3 w)) =
        (files w)(target_path outpath track \<mapsto> File content)"
    using download_track_third[of w outpath track env content] by simp
  have e4: "\<not> path_exists w (target_path outpath track) \<and>
    raises (audio_api env (sent w) (tid track)) \<and>
    raises (audio_api env (sent w + 1) (tid track)) \<and>
    raises (audio_api env (sent w + 2) (tid track)) \<longrightarrow>
      fst (download_track env track outpath 3 w) = Inr (Some False) \<and>
      requests_log (snd (download_track env track outpath 3 w)) =
        requests_log w @ replicate 3 (GetAudio (tid track)) \<and>
      files (snd (download_track env track outpath 3 w)) = files w"
    using download_track_exhausted[of w outpath track env] by simp
  show ?thesis
    by (intro conjI t3 tx a3 ax p3 px d3 dx e1 e2 e3 e4)
qed

lemma link_facts:
  "resource_id album_link = ustr ''a1''"
  "resource_id playlist_link = ustr ''p1''"
  by (simp_all add: resource_id_def album_link_def playlist_link_def ustr_def)

lemma sample_paths:
  "target_path (ustr ''/music'') song_a = ustr ''/music/Song - Band.mp3''"
  "target_path (ustr ''/music'') song_b = ustr ''/music/Tune - Duo.mp3''"
  "\<not> bad_path (ustr ''/music/Song - Band.mp3'')"
  "\<not> bad_path (ustr ''/music/Tune - Duo.mp3'')"
  by (simp_all add: trackname_of_def song_a_def song_b_def ustr_def target_path_def path_join_def
      normalize_filename_def strip_forbidden_def forbidden_def py_split_def py_strip_def
      is_space_def bad_path_def unencodable_def)

lemma lp_songs: "map (album_track_of_json (cj_title lp)) lp_tracks = [song_a, song_b]"
  by (simp add: lp_def lp_tracks_def album_track_of_json_def song_a_def song_b_def
      normalize_filename_def strip_forbidden_def forbidden_def py_split_def py_strip_def
      is_space_def ustr_def)

lemma raises_samples:
  "raises (NoResponse :: download_json response)" "raises (NoResponse :: bytes response)"
  "raises (NoResponse :: collection_json response)"
  "raises (Response 503 ([] :: bytes))" "raises (Response 500 mix)"
  "\<not> raises (Response 200 (x :: 'a))"
  by (simp_all add: raises_def)

theorem retry_three_attempts_witness:
  "fst (fetch_track_metadata flaky track_link 3 world0) = Inr (Some answer_a) \<and>
   requests_log (snd (fetch_track_metadata flaky track_link 3 world0)) =
     [GetDownload (ustr ''t1''), GetDownload (ustr ''t1''), GetDownload (ustr ''t1'')] \<and>
   slept (snd (fetch_track_metadata flaky track_link 3 world0)) = 4 \<and>
   fst (fetch_track_metadata offline track_link 3 world0) = Inr None \<and>
   requests_log (snd (fetch_track_metadata offline track_link 3 world0)) =
     [GetDownload (ustr ''t1''), GetDownload (ustr ''t1''), GetDownload (ustr ''t1'')] \<and>
   stdout (snd (fetch_track_metadata offline track_link 3 world0)) =
     [RetryTrack 2 3, RetryTrack 3 3, FailedTrack 3] \<and>
   fst (fetch_album_metadata flaky album_link 3 world0) =
     Inr (Some ([song_a, song_b], ustr ''LP'')) \<and>
   requests_log (snd (fetch_album_metadata flaky album_link 3 world0)) =
     [GetAlbum (ustr ''a1''), GetAlbum (ustr ''a1''), GetAlbum (ustr ''a1''),
      GetAlbumTracks (ustr ''a1'')] \<and>
   fst (fetch_album_metadata offline album_link 3 world0) = Inr None \<and>
   requests_log (snd (fetch_album_metadata offline album_link 3 world0)) =
     [GetAlbum (ustr ''a1''), GetAlbum (ustr ''a1''), GetAlbum (ustr ''a1'')] \<and>
   map_option fst (fetch_playlist_metadata flaky playlist_link 3 world0) =
     Some (Inr (Some (map track_of_json lp_tracks, ustr ''Mix''))) \<and>
   map_option (requests_log \<circ> snd) (fetch_playlist_metadata flaky playlist_link 3 world0) =
     Some [GetPlaylist (ustr ''p1''), GetPlaylist (ustr ''p1''), GetPlaylist (ustr ''p1''),
           GetPlaylistTracks (ustr ''p1'') (JInt 0)] \<and>
   map_option fst (fetch_playlist_metadata offline playlist_link 3 world0) = Some (Inr None) \<and>
   map_option (requests_log \<circ> snd) (fetch_playlist_metadata offline playlist_link 3 world0) =
     Some [GetPlaylist (ustr ''p1''), GetPlaylist (ustr ''p1''), GetPlaylist (ustr ''p1'')] \<and>
   fst (download_track flaky song_a (ustr ''/music'') 3 world0) = Inr (Some True) \<and>
   requests_log (snd (download_track flaky song_a (ustr ''/music'') 3 world0)) =
     [GetAudio (ustr ''t1''), GetAudio (ustr ''t1''), GetAudio (ustr ''t1'')] \<and>
   files (snd (download_track flaky song_a (ustr ''/music'') 3 world0))
     (target_path (ustr ''/music'') song_a) = Some (File [1, 2, 3]) \<and>
   stdout (snd (download_track flaky song_a (ustr ''/music'') 3 world0)) =
     [Downloading (trackname_of song_a), RetryDownload 2 3, RetryDownload 3 3, Downloaded] \<and>
   fst (download_track offline song_a (ustr ''/music'') 3 world0) = Inr (Some False) \<and>
   requests_log (snd (download_track offline song_a (ustr ''/music'') 3 world0)) =
     [GetAudio (ustr ''t1''), GetAudio (ustr ''t1''), GetAudio (ustr ''t1'')] \<and>
   stdout (snd (download_track offline song_a (ustr ''/music'') 3 world0)) =
     [Downloading (trackname_of song_a), RetryDownload 2 3, RetryDownload 3 3, FailedDownload 3]"
proof -
  have three: "\<And>x :: request. replicate 3 x = [x, x, x]"
    by (simp add: numeral_3_eq_3)
  have w0: "requests_log world0 = []" "files world0 = (\<lambda>p. None)" "stdout world0 = []"
    "slept world0 = 0"
    by (simp_all add: world0_def)

  \<comment> \<open>the track and the download loop, by what the servers answer\<close>
  have f: "raises (download_api flaky (sent world0) (resource_id track_link)) \<and>
    raises (download_api flaky (sent world0 + 1) (resource_id track_link)) \<and>
    download_api flaky (sent world0 + 2) (resource_id track_link) = Response 200 answer_a \<and>
    \<not> raises (Response 200 answer_a)"
    by (simp add: sample_facts flaky_facts raises_samples)
  have fd: "\<not> path_exists world0 (target_path (ustr ''/music'') song_a) \<and>
    raises (audio_api flaky (sent world0) (tid song_a)) \<and>
    raises (audio_api flaky (sent world0 + 1) (tid song_a)) \<and>
    audio_api flaky (sent world0 + 2) (tid song_a) = Response 200 [1, 2, 3] \<and>
    \<not> bad_path (target_path (ustr ''/music'') song_a) \<and>
    open_wb flaky (target_path (ustr ''/music'') song_a) = WriteOk"
    by (simp add: sample_facts flaky_facts raises_samples sample_paths)
  have g: "raises (download_api offline (sent world0) (resource_id track_link)) \<and>
    raises (download_api offline (sent world0 + 1) (resource_id track_link)) \<and>
    raises (download_api offline (sent world0 + 2) (resource_id track_link))"
    by (simp add: offline_facts raises_samples)
  have gd: "\<not> path_exists world0 (target_path (ustr ''/music'') song_a) \<and>
    raises (audio_api offline (sent world0) (tid song_a)) \<and>
    raises (audio_api offline (sent world0 + 1) (tid song_a)) \<and>
    raises (audio_api offline (sent world0 + 2) (tid song_a))"
    by (simp add: offline_facts raises_samples sample_facts)
  note e1 = retry_three_attempts[where env = flaky and w = world0 and link = track_link
      and st = 200 and body = answer_a, THEN conjunct2, THEN conjunct2, THEN conjunct2, THEN conjunct2, THEN conjunct2, THEN conjunct2, THEN conjunct2, THEN conjunct2, THEN conjunct1, THEN mp, OF f]
  note e2 = retry_three_attempts[where env = offline and w = world0 and link = track_link,
      THEN conjunct2, THEN conjunct2, THEN conjunct2, THEN conjunct2, THEN conjunct2, THEN conjunct2, THEN conjunct2, THEN conjunct2, THEN conjunct2, THEN conjunct1, THEN mp, OF g]
  note e3 = retry_three_attempts[where env = flaky and w = world0 and track = song_a
      and outpath = "ustr ''/music''" and content = "[1, 2, 3]", THEN conjunct2, THEN conjunct2, THEN conjunct2, THEN conjunct2, THEN conjunct2, THEN conjunct2, THEN conjunct2, THEN conjunct2, THEN conjunct2, THEN conjunct2, THEN conjunct1, THEN mp, OF fd]
  note e4 = retry_three_attempts[where env = offline and w = world0 and track = song_a
      and outpath = "ustr ''/music''", THEN conjunct2, THEN conjunct2, THEN conjunct2, THEN conjunct2, THEN conjunct2, THEN conjunct2, THEN conjunct2, THEN conjunct2, THEN conjunct2, THEN conjunct2, THEN conjunct2, THEN mp, OF gd]
  have t1: "fst (fetch_track_metadata flaky track_link 3 world0) = Inr (Some answer_a)"
    "requests_log (snd (fetch_track_metadata flaky track_link 3 world0)) =
     [GetDownload (ustr ''t1''), GetDownload (ustr ''t1''), GetDownload (ustr ''t1'')]"
    using e1 by (simp_all add: three sample_facts)
  have t2: "fst (fetch_track_metadata offline track_link 3 world0) = Inr None"
    "requests_log (snd (fetch_track_metadata offline track_link 3 world0)) =
     [GetDownload (ustr ''t1''), GetDownload (ustr ''t1''), GetDownload (ustr ''t1'')]"
    using e2 by (simp_all add: three sample_facts)
  have t3: "fst (download_track flaky song_a (ustr ''/music'') 3 world0) = Inr (Some True)"
    "requests_log (snd (download_track flaky song_a (ustr ''/music'') 3 world0)) =
     [GetAudio (ustr ''t1''), GetAudio (ustr ''t1''), GetAudio (ustr ''t1'')]"
    "files (snd (download_track flaky song_a (ustr ''/music'') 3 world0))
     (target_path (ustr ''/music'') song_a) = Some (File [1, 2, 3])"
    using e3 by (simp_all add: three sample_facts)
  have t4: "fst (download_track offline song_a (ustr ''/music'') 3 world0) = Inr (Some False)"
    "requests_log (snd (download_track offline song_a (ustr ''/music'') 3 world0)) =
     [GetAudio (ustr ''t1''), GetAudio (ustr ''t1''), GetAudio (ustr ''t1'')]"
    using e4 by (simp_all add: three sample_facts)

  \<comment> \<open>the track loop, run by run\<close>
  define c1 where "c1 = log_request (GetDownload (resource_id track_link)) world0"
  define c2 where "c2 = log_request (GetDownload (resource_id track_link))
    (sleep 2 (print (RetryTrack 2 3) c1))"
  define c3 where "c3 = log_request (GetDownload (resource_id track_link))
    (sleep 2 (print (RetryTrack 3 3) c2))"
  have sc: "sent c1 = 1" "sent c2 = 2"
    by (simp_all add: c1_def c2_def sample_facts)
  have tc1: "track_try flaky (resource_id track_link) world0 = (Inl RequestException, c1)"
    unfolding c1_def by (rule track_try_raises) (simp add: flaky_facts sample_facts raises_samples)
  have tc2: "track_try flaky (resource_id track_link) (sleep 2 (print (RetryTrack 2 3) c1)) =
      (Inl RequestException, c2)"
    unfolding c2_def by (rule track_try_raises) (simp add: flaky_facts sc raises_samples)
  have tc3: "track_try flaky (resource_id track_link) (sleep 2 (print (RetryTrack 3 3) c2)) =
      (Inr answer_a, c3)"
    unfolding c3_def
    by (rule track_try_ok[where st = 200]) (simp_all add: flaky_facts sc raises_samples)
  have ft: "fetch_track_metadata flaky track_link 3 world0 = (Inr (Some answer_a), c3)"
    by (rule retry_three_attempts[where env = flaky and w = world0 and link = track_link
          and ?wt1.0 = c1 and ?wt2.0 = c2,
          THEN conjunct1, THEN mp]) (intro conjI tc1 tc2 tc3)
  have ft1: "slept (snd (fetch_track_metadata flaky track_link 3 world0)) = 4"
    unfolding ft by (simp add: c3_def c2_def c1_def w0 log_request_def print_def sleep_def)
  have td1: "track_try offline (resource_id track_link) world0 = (Inl RequestException, c1)"
    unfolding c1_def by (rule track_try_raises) (simp add: offline_facts raises_samples)
  have td2: "track_try offline (resource_id track_link) (sleep 2 (print (RetryTrack 2 3) c1)) =
      (Inl RequestException, c2)"
    unfolding c2_def by (rule track_try_raises) (simp add: offline_facts raises_samples)
  have td3: "track_try offline (resource_id track_link) (sleep 2 (print (RetryTrack 3 3) c2)) =
      (Inl RequestException, c3)"
    unfolding c3_def by (rule track_try_raises) (simp add: offline_facts raises_samples)
  have ot: "fetch_track_metadata offline track_link 3 world0 =
      (Inr None, print (FailedTrack 3) c3)"
    by (rule retry_three_attempts[where env = offline and w = world0 and link = track_link
          and ?wt1.0 = c1 and ?wt2.0 = c2,
          THEN conjunct2, THEN conjunct1, THEN mp]) (intro conjI td1 td2 td3)
  have ot1: "stdout (snd (fetch_track_metadata offline track_link 3 world0)) =
     [RetryTrack 2 3, RetryTrack 3 3, FailedTrack 3]"
    unfolding ot by (simp add: c3_def c2_def c1_def w0)

  \<comment> \<open>the album loop: two runs without response, then both requests served\<close>
  define a1 where "a1 = log_request (GetAlbum (resource_id album_link)) world0"
  define a2 where "a2 = log_request (GetAlbum (resource_id album_link))
    (sleep 2 (print (RetryAlbum 2 3) a1))"
  define a3 where "a3 = log_request (GetAlbumTracks (resource_id album_link))
    (print GettingAlbumSongs (print (AlbumBy (cj_title lp) (cj_artists lp))
      (log_request (GetAlbum (resource_id album_link)) (sleep 2 (print (RetryAlbum 3 3) a2)))))"
  define b3 where "b3 = log_request (GetAlbum (resource_id album_link))
    (sleep 2 (print (RetryAlbum 3 3) a2))"
  have sa: "sent a1 = 1" "sent a2 = 2"
    by (simp_all add: a1_def a2_def sample_facts)
  have ta1: "album_try flaky (resource_id album_link) world0 = (Inl RequestException, a1)"
    unfolding a1_def by (rule album_try_raises) (simp add: flaky_facts sample_facts raises_samples)
  have ta2: "album_try flaky (resource_id album_link) (sleep 2 (print (RetryAlbum 2 3) a1)) =
      (Inl RequestException, a2)"
    unfolding a2_def by (rule album_try_raises) (simp add: flaky_facts sa raises_samples)
  have ta3: "album_try flaky (resource_id album_link) (sleep 2 (print (RetryAlbum 3 3) a2)) =
      (Inr (map (album_track_of_json (cj_title lp)) lp_tracks, cj_title lp), a3)"
    unfolding a3_def
    by (rule album_try_ok[where st = 200 and st' = 200])
      (simp_all add: flaky_facts sa raises_samples)
  have fa: "fetch_album_metadata flaky album_link 3 world0 =
      (Inr (Some (map (album_track_of_json (cj_title lp)) lp_tracks, cj_title lp)), a3)"
    by (rule retry_three_attempts[where env = flaky and w = world0 and link = album_link
          and ?wa1.0 = a1 and ?wa2.0 = a2,
          THEN conjunct2, THEN conjunct2, THEN conjunct1, THEN mp]) (intro conjI ta1 ta2 ta3)
  have fa1: "fst (fetch_album_metadata flaky album_link 3 world0) =
      Inr (Some ([song_a, song_b], ustr ''LP''))"
    unfolding fa by (simp add: lp_songs) (simp add: lp_def)
  have fa2: "requests_log (snd (fetch_album_metadata flaky album_link 3 world0)) =
      [GetAlbum (ustr ''a1''), GetAlbum (ustr ''a1''), GetAlbum (ustr ''a1''),
       GetAlbumTracks (ustr ''a1'')]"
    unfolding fa by (simp add: a3_def a2_def a1_def w0 link_facts)
  have tb1: "album_try offline (resource_id album_link) world0 = (Inl RequestException, a1)"
    unfolding a1_def by (rule album_try_raises) (simp add: offline_facts raises_samples)
  have tb2: "album_try offline (resource_id album_link) (sleep 2 (print (RetryAlbum 2 3) a1)) =
      (Inl RequestException, a2)"
    unfolding a2_def by (rule album_try_raises) (simp add: offline_facts raises_samples)
  have tb3: "album_try offline (resource_id album_link) (sleep 2 (print (RetryAlbum 3 3) a2)) =
      (Inl RequestException, b3)"
    unfolding b3_def by (rule album_try_raises) (simp add: offline_facts raises_samples)
  have oa: "fetch_album_metadata offline album_link 3 world0 =
      (Inr None, print (FailedAlbum 3) b3)"
    by (rule retry_three_attempts[where env = offline and w = world0 and link = album_link
          and ?wa1.0 = a1 and ?wa2.0 = a2,
          THEN conjunct2, THEN conjunct2, THEN conjunct2, THEN conjunct1, THEN mp]) (intro conjI tb1 tb2 tb3)
  have oa1: "fst (fetch_album_metadata offline album_link 3 world0) = Inr None"
    unfolding oa by simp
  have oa2: "requests_log (snd (fetch_album_metadata offline album_link 3 world0)) =
      [GetAlbum (ustr ''a1''), GetAlbum (ustr ''a1''), GetAlbum (ustr ''a1'')]"
    unfolding oa by (simp add: b3_def a2_def a1_def w0 link_facts)

  \<comment> \<open>the playlist loop: two runs with status 500, then the playlist and its one page\<close>
  define p1 where "p1 = log_request (GetPlaylist (resource_id playlist_link)) world0"
  define p2 where "p2 = log_request (GetPlaylist (resource_id playlist_link))
    (sleep 2 (print (RetryPlaylist 2 3) p1))"
  define p3 where "p3 =
    foldl (\<lambda>w' off'. log_request (GetPlaylistTracks (resource_id playlist_link) off') w')
      (print GettingPlaylistSongs (print (PlaylistBy (cj_title mix) (cj_artists mix))
        (log_request (GetPlaylist (resource_id playlist_link))
          (sleep 2 (print (RetryPlaylist 3 3) p2)))))
      (offsets (JInt 0) [short_page])"
  define q3 where "q3 = log_request (GetPlaylist (resource_id playlist_link))
    (sleep 2 (print (RetryPlaylist 3 3) p2))"
  have sp: "sent p1 = 1" "sent p2 = 2"
    by (simp_all add: p1_def p2_def sample_facts)
  have tp1: "playlist_try flaky (resource_id playlist_link) world0 =
      Some (Inl RequestException, p1)"
    unfolding p1_def
    by (rule playlist_try_raises) (simp add: flaky_facts sample_facts raises_samples)
  have tp2: "playlist_try flaky (resource_id playlist_link)
      (sleep 2 (print (RetryPlaylist 2 3) p1)) = Some (Inl RequestException, p2)"
    unfolding p2_def by (rule playlist_try_raises) (simp add: flaky_facts sp raises_samples)
  have tp3: "playlist_try flaky (resource_id playlist_link)
      (sleep 2 (print (RetryPlaylist 3 3) p2)) =
      Some (Inr (map track_of_json (concat (map pj_trackList [short_page])), cj_title mix), p3)"
    unfolding p3_def
    by (rule playlist_try_served[where st = 200])
      (simp_all add: flaky_facts sp raises_samples short_page_def)
  have fp: "fetch_playlist_metadata flaky playlist_link 3 world0 =
      Some (Inr (Some (map track_of_json (concat (map pj_trackList [short_page])), cj_title mix)),
            p3)"
    by (rule retry_three_attempts[where env = flaky and w = world0 and link = playlist_link
          and ?wp1.0 = p1 and ?wp2.0 = p2,
          THEN conjunct2, THEN conjunct2, THEN conjunct2, THEN conjunct2, THEN conjunct1, THEN mp]) (intro conjI tp1 tp2 tp3)
  have fp1: "map_option fst (fetch_playlist_metadata flaky playlist_link 3 world0) =
      Some (Inr (Some (map track_of_json lp_tracks, ustr ''Mix'')))"
    unfolding fp by (simp add: short_page_def mix_def)
  have fp2: "map_option (requests_log \<circ> snd)
      (fetch_playlist_metadata flaky playlist_link 3 world0) =
      Some [GetPlaylist (ustr ''p1''), GetPlaylist (ustr ''p1''), GetPlaylist (ustr ''p1''),
            GetPlaylistTracks (ustr ''p1'') (JInt 0)]"
    unfolding fp by (simp add: p3_def p2_def p1_def w0 link_facts)
  have tq1: "playlist_try offline (resource_id playlist_link) world0 =
      Some (Inl RequestException, p1)"
    unfolding p1_def by (rule playlist_try_raises) (simp add: offline_facts raises_samples)
  have tq2: "playlist_try offline (resource_id playlist_link)
      (sleep 2 (print (RetryPlaylist 2 3) p1)) = Some (Inl RequestException, p2)"
    unfolding p2_def by (rule playlist_try_raises) (simp add: offline_facts raises_samples)
  have tq3: "playlist_try offline (resource_id playlist_link)
      (sleep 2 (print (RetryPlaylist 3 3) p2)) = Some (Inl RequestException, q3)"
    unfolding q3_def by (rule playlist_try_raises) (simp add: offline_facts raises_samples)
  have op: "fetch_playlist_metadata offline playlist_link 3 world0 =
      Some (Inr None, print (FailedPlaylist 3) q3)"
    by (rule retry_three_attempts[where env = offline and w = world0 and link = playlist_link
          and ?wp1.0 = p1 and ?wp2.0 = p2,
          THEN conjunct2, THEN conjunct2, THEN conjunct2, THEN conjunct2, THEN conjunct2, THEN conjunct1, THEN mp]) (intro conjI tq1 tq2 tq3)
  have op1: "map_option fst (fetch_playlist_metadata offline playlist_link 3 world0) =
      Some (Inr None)"
    unfolding op by simp
  have op2: "map_option (requests_log \<circ> snd)
      (fetch_playlist_metadata offline playlist_link 3 world0) =
      Some [GetPlaylist (ustr ''p1''), GetPlaylist (ustr ''p1''), GetPlaylist (ustr ''p1'')]"
    unfolding op by (simp add: q3_def p2_def p1_def w0 link_facts)

  \<comment> \<open>the download loop, run by run\<close>
  define d0 where "d0 = print (Downloading (trackname_of song_a)) world0"
  define d1 where "d1 = log_request (GetAudio (tid song_a)) d0"
  define d2 where "d2 = log_request (GetAudio (tid song_a)) (sleep 2 (print (RetryDownload 2 3) d1))"
  define d3 where "d3 = (log_request (GetAudio (tid song_a))
      (sleep 2 (print (RetryDownload 3 3) d2)))
    \<lparr>files := (files (sleep 2 (print (RetryDownload 3 3) d2)))
       (path_join (ustr ''/music'') (normalize_filename (trackname_of song_a) @ ustr ''.mp3'')
          \<mapsto> File [1, 2, 3])\<rparr>"
  define x3 where "x3 = log_request (GetAudio (tid song_a))
    (sleep 2 (print (RetryDownload 3 3) d2))"
  have sd: "sent d0 = 0" "sent d1 = 1" "sent d2 = 2"
    by (simp_all add: d0_def d1_def d2_def sample_facts)
  have nd: "\<not> path_exists w
      (path_join (ustr ''/music'') (normalize_filename (trackname_of song_a) @ ustr ''.mp3''))"
    if "files w = (\<lambda>p. None)" for w
    using that by (simp add: path_exists_def)
  have fl: "files d0 = (\<lambda>p. None)" "files (sleep 2 (print (RetryDownload 2 3) d1)) = (\<lambda>p. None)"
    "files (sleep 2 (print (RetryDownload 3 3) d2)) = (\<lambda>p. None)"
    by (simp_all add: d0_def d1_def d2_def w0)
  have pt: "path_join (ustr ''/music'') (normalize_filename (trackname_of song_a) @ ustr ''.mp3'') =
      target_path (ustr ''/music'') song_a"
    by (simp add: target_path_def)
  have u1: "persist_audio_file flaky (trackname_of song_a) (tid song_a) (ustr ''/music'') d0 =
      (Inl RequestException, d1)"
    unfolding d1_def
    by (rule persist_raises[OF nd[OF fl(1)]]) (simp add: flaky_facts sd raises_samples)
  have u2: "persist_audio_file flaky (trackname_of song_a) (tid song_a) (ustr ''/music'')
      (sleep 2 (print (RetryDownload 2 3) d1)) = (Inl RequestException, d2)"
    unfolding d2_def
    by (rule persist_raises[OF nd[OF fl(2)]]) (simp add: flaky_facts sd raises_samples)
  have u3: "persist_audio_file flaky (trackname_of song_a) (tid song_a) (ustr ''/music'')
      (sleep 2 (print (RetryDownload 3 3) d2)) = (Inr True, d3)"
    unfolding d3_def
    by (rule persist_written[OF nd[OF fl(3)]])
      (simp_all add: flaky_facts sd pt sample_paths)
  have fdl: "download_track flaky song_a (ustr ''/music'') 3 world0 =
      (Inr (Some True), print (if True then Downloaded else SkippedExists) d3)"
    by (rule retry_three_attempts[where env = flaky and w = world0 and track = song_a
          and outpath = "ustr ''/music''"
          and ?wd1.0 = d1 and ?wd2.0 = d2,
          THEN conjunct2, THEN conjunct2, THEN conjunct2, THEN conjunct2, THEN conjunct2,
          THEN conjunct2, THEN conjunct1, THEN mp])
      (intro conjI u1[unfolded d0_def] u2 u3)
  have fd1: "stdout (snd (download_track flaky song_a (ustr ''/music'') 3 world0)) =
     [Downloading (trackname_of song_a), RetryDownload 2 3, RetryDownload 3 3, Downloaded]"
    unfolding fdl by (simp add: d3_def d2_def d1_def d0_def w0)
  have v1: "persist_audio_file offline (trackname_of song_a) (tid song_a) (ustr ''/music'') d0 =
      (Inl RequestException, d1)"
    unfolding d1_def
    by (rule persist_raises[OF nd[OF fl(1)]]) (simp add: offline_facts raises_samples)
  have v2: "persist_audio_file offline (trackname_of song_a) (tid song_a) (ustr ''/music'')
      (sleep 2 (print (RetryDownload 2 3) d1)) = (Inl RequestException, d2)"
    unfolding d2_def
    by (rule persist_raises[OF nd[OF fl(2)]]) (simp add: offline_facts raises_samples)
  have v3: "persist_audio_file offline (trackname_of song_a) (tid song_a) (ustr ''/music'')
      (sleep 2 (print (RetryDownload 3 3) d2)) = (Inl RequestException, x3)"
    unfolding x3_def
    by (rule persist_raises[OF nd[OF fl(3)]]) (simp add: offline_facts raises_samples)
  have odl: "download_track offline song_a (ustr ''/music'') 3 world0 =
      (Inr (Some False), print (FailedDownload 3) x3)"
    by (rule retry_three_attempts[where env = offline and w = world0 and track = song_a
          and outpath = "ustr ''/music''"
          and ?wd1.0 = d1 and ?wd2.0 = d2,
          THEN conjunct2, THEN conjunct2, THEN conjunct2, THEN conjunct2, THEN conjunct2,
          THEN conjunct2, THEN conjunct2, THEN conjunct1, THEN mp])
      (intro conjI v1[unfolded d0_def] v2 v3)
  have od1: "stdout (snd (download_track offline song_a (ustr ''/music'') 3 world0)) =
     [Downloading (trackname_of song_a), RetryDownload 2 3, RetryDownload 3 3, FailedDownload 3]"
    unfolding odl by (simp add: x3_def d2_def d1_def d0_def w0)

  show ?thesis
    by (intro conjI t1 ft1 t2 ot1 fa1 fa2 oa1 oa2 fp1 fp2 op1 op2 t3 fd1 t4 od1)
qed

section \<open>Selection\<close>

lemma dropWhile_all: "(\<forall>x\<in>set (dropWhile P xs). P x) \<longleftrightarrow> (\<forall>x\<in>set xs. P x)"
  by (induction xs) auto

lemma py_strip_Nil_iff: "py_strip s = [] \<longleftrightarrow> (\<forall>c\<in>set s. is_space c)"
  by (simp add: py_strip_def dropWhile_eq_Nil_conv dropWhile_all)

lemma split_from_Nil_iff: "split_from cur s = [] \<longleftrightarrow> cur = [] \<and> (\<forall>c\<in>set s. is_space c)"
  by (induction cur s rule: split_from.induct) simp_all

lemma py_split_Nil_iff: "py_split s = [] \<longleftrightarrow> (\<forall>c\<in>set s. is_space c)"
  by (simp add: py_split_def split_from_Nil_iff)

lemma py_int_error: "py_int t = Inl e \<Longrightarrow> e = ValueError"
  by (auto simp: py_int_def Let_def split: option.splits if_splits prod.splits)

lemma ints_of_error: "ints_of ts = Inl e \<Longrightarrow> e = ValueError"
  by (induction ts arbitrary: e) (auto split: sum.splits dest: py_int_error)

lemma ints_of_Inr: "map py_int ts = map Inr ns \<Longrightarrow> ints_of ts = Inr (map (\<lambda>n. n - 1) ns)"
  by (induction ts arbitrary: ns) auto

lemma ints_of_Inl: "t \<in> set ts \<Longrightarrow> py_int t = Inl e \<Longrightarrow> ints_of ts = Inl ValueError"
proof (induction ts)
  case Nil
  then show ?case by simp
next
  case (Cons x xs)
  show ?case
  proof (cases "py_int x")
    case (Inl e')
    then show ?thesis using py_int_error[OF Inl] by simp
  next
    case (Inr n)
    with Cons have "ints_of xs = Inl ValueError" by auto
    with Inr show ?thesis by simp
  qed
qed


lemma py_int_samples:
  "py_int (ustr ''0'') = Inr 0" "py_int (ustr ''1'') = Inr 1" "py_int (ustr ''2'') = Inr 2"
  "py_int (ustr ''3'') = Inr 3" "py_int (ustr ''9'') = Inr 9"
  "py_int (ustr ''a'') = Inl ValueError" "py_int (ustr ''x'') = Inl ValueError"
  by (simp_all add: py_int_def ustr_def ascii_of_def c_isspace_def max_str_digits_def)

lemma py_split_samples:
  "py_split (ustr ''3 1 1 9 0'') = [ustr ''3'', ustr ''1'', ustr ''1'', ustr ''9'', ustr ''0'']"
  "py_split (ustr ''2 x'') = [ustr ''2'', ustr ''x'']"
  "py_split (ustr ''1 a'') = [ustr ''1'', ustr ''a'']"
  by (simp_all add: py_split_def ustr_def is_space_def)

text \<open>
  Claim C4, as the code has it. A selection that is empty or all whitespace returns the
  songs unchanged. A selection whose words are all integer literals, with the values
  \<open>ns\<close>, returns the songs at the indices \<open>n - 1\<close> that lie in \<open>[0, len(songs))\<close>, in the
  order of the words and with their repetitions. (A word that is no integer literal
  makes \<open>int\<close> raise, so nothing is returned for such a selection.)
\<close>

theorem selection_of_integers:
  "((\<forall>c\<in>set selection. is_space c) \<longrightarrow> select_songs songs selection = Inr songs) \<and>
   (\<not> (\<forall>c\<in>set selection. is_space c) \<and> map py_int (py_split selection) = map Inr ns \<longrightarrow>
      select_songs songs selection =
        Inr (map (\<lambda>i. songs ! nat i)
               (filter (\<lambda>i. 0 \<le> i \<and> i < int (length songs)) (map (\<lambda>n. n - 1) ns))))"
  by (simp add: select_songs_def py_strip_Nil_iff ints_of_Inr)

theorem selection_of_integers_witness:
  "py_strip (ustr ''  '') = [] \<and>
   select_songs [10, 20, 30, 40, 50 :: nat] (ustr ''  '') = Inr [10, 20, 30, 40, 50] \<and>
   py_strip (ustr ''3 1 1 9 0'') = ustr ''3 1 1 9 0'' \<and>
   map py_int (py_split (ustr ''3 1 1 9 0'')) = map Inr [3, 1, 1, 9, 0] \<and>
   select_songs [10, 20, 30, 40, 50 :: nat] (ustr ''3 1 1 9 0'') = Inr [30, 10, 10]"
proof -
  have a: "\<forall>c\<in>set (ustr ''  ''). is_space c"
    by (simp add: ustr_def is_space_def)
  have b: "\<not> (\<forall>c\<in>set (ustr ''3 1 1 9 0''). is_space c)"
    by (simp add: ustr_def is_space_def)
  have c: "map py_int (py_split (ustr ''3 1 1 9 0'')) = map Inr [3, 1, 1, 9, 0]"
    by (simp add: py_split_samples py_int_samples)
  have d: "py_strip (ustr ''  '') = []" "py_strip (ustr ''3 1 1 9 0'') = ustr ''3 1 1 9 0''"
    by (simp_all add: py_strip_def ustr_def is_space_def)
  note t = selection_of_integers[of "ustr ''  ''" "[10, 20, 30, 40, 50 :: nat]"]
    selection_of_integers[of "ustr ''3 1 1 9 0''" "[10, 20, 30, 40, 50 :: nat]" "[3, 1, 1, 9, 0]"]
  from t a b c have e:
    "select_songs [10, 20, 30, 40, 50 :: nat] (ustr ''  '') = Inr [10, 20, 30, 40, 50]"
    "select_songs [10, 20, 30, 40, 50 :: nat] (ustr ''3 1 1 9 0'') =
       Inr (map (\<lambda>i. [10, 20, 30, 40, 50] ! nat i)
              (filter (\<lambda>i. 0 \<le> i \<and> i < int (length [10, 20, 30, 40, 50 :: nat]))
                 (map (\<lambda>n. n - 1) [3, 1, 1, 9, 0])))"
    by blast+
  have f: "map (\<lambda>i. [10, 20, 30, 40, 50 :: nat] ! nat i)
              (filter (\<lambda>i. 0 \<le> i \<and> i < int (length [10, 20, 30, 40, 50 :: nat]))
                 (map (\<lambda>n. n - 1) [3, 1, 1, 9, 0])) = [30, 10, 10]"
    by simp
  from e(2) have g: "select_songs [10, 20, 30, 40, 50 :: nat] (ustr ''3 1 1 9 0'') = Inr [30, 10, 10]"
    unfolding f .
  from d e(1) c g show ?thesis by blast
qed

text \<open>
  Without that condition the selection is not total: with five items, the answer \<open>2 x\<close>
  returns no list at all.
\<close>

theorem selection_not_total_counterexample:
  "select_songs [10, 20, 30, 40, 50 :: nat] (ustr ''2 x'') = Inl ValueError"
  by (simp add: select_songs_def py_strip_Nil_iff py_split_samples py_int_samples)
    (simp add: ustr_def is_space_def)

text \<open>
  Claim C10. A selection with a word that is no integer literal, such as \<open>1 a\<close>, makes
  the selection raise \<open>ValueError\<close>, which nothing catches: once the album or playlist is
  resolved, \<open>main\<close> ends with this exception right after the prompt, in the world the
  resolution left (extended by the printed listing and prompt only), so without a
  directory made, a request for audio sent or a file written.
\<close>

theorem selection_value_error:
  assumes "t \<in> set (py_split selection)" and "py_int t = Inl ValueError"
  shows "select_songs songs selection = Inl ValueError \<and>
     (contains (ustr ''album'') url \<and>
      fetch_album_metadata env url 3 (print PromptUrl w0) = (Inr (Some (tracks, name)), w1) \<longrightarrow>
        main env url selection w0 =
          Some (Inl ValueError,
                print PromptSelection (w1\<lparr>stdout := stdout w1 @ TracksInAlbum # listing tracks\<rparr>))) \<and>
     (\<not> contains (ustr ''album'') url \<and> contains (ustr ''playlist'') url \<and>
      fetch_playlist_metadata env url 3 (print PromptUrl w0) = Some (Inr (Some (tracks, name)), w1) \<longrightarrow>
        main env url selection w0 =
          Some (Inl ValueError,
                print PromptSelection (w1\<lparr>stdout := stdout w1 @ TracksInPlaylist # listing tracks\<rparr>)))"
proof -
  from assms(1) have "py_split selection \<noteq> []" by auto
  then have n: "py_strip selection \<noteq> []"
    by (simp add: py_strip_Nil_iff py_split_Nil_iff)
  have s: "select_songs xs selection = Inl ValueError" for xs :: "'b list"
    using n ints_of_Inl[OF assms] by (simp add: select_songs_def)
  have d: "download_selection env tracks name selection w = (Inl ValueError, print PromptSelection w)" for w
    by (simp add: download_selection_def s)
  show ?thesis
    by (simp add: s main_def Let_def d finish_def)
qed

lemma album_env_facts:
  "album_api album_env n i = Response 200 \<lparr>cj_title = ustr ''LP'', cj_artists = ustr ''Band''\<rparr>"
  "album_tracks_api album_env n i = Response 200
        [\<lparr>tj_title = ustr ''Song'', tj_artists = ustr ''Band'', tj_album = None, tj_id = ustr ''t1''\<rparr>,
         \<lparr>tj_title = ustr ''Tune'', tj_artists = ustr ''Duo'', tj_album = None, tj_id = ustr ''t2''\<rparr>]"
  by (simp_all add: album_env_def offline_def)

lemma normalize_samples:
  "normalize_filename (ustr ''Song'') = ustr ''Song''"
  "normalize_filename (ustr ''Band'') = ustr ''Band''"
  "normalize_filename (ustr ''Tune'') = ustr ''Tune''"
  "normalize_filename (ustr ''Duo'') = ustr ''Duo''"
  "normalize_filename (ustr ''LP'') = ustr ''LP''"
  by (simp_all add: normalize_filename_def ustr_def strip_forbidden_def forbidden_def
      py_split_def py_strip_def is_space_def)

lemma album_env_fetch:
  "fetch_album_metadata album_env album_link 3 (print PromptUrl world0) =
     (Inr (Some ([song_a, song_b], ustr ''LP'')),
      log_request (GetAlbumTracks (ustr ''a1''))
        (print GettingAlbumSongs (print (AlbumBy (ustr ''LP'') (ustr ''Band''))
           (log_request (GetAlbum (ustr ''a1'')) (print PromptUrl world0)))))"
proof -
  have i: "resource_id album_link = ustr ''a1''"
    by (simp add: resource_id_def album_link_def ustr_def)
  have r: "\<And>b :: collection_json. \<not> raises (Response 200 b)"
    "\<And>b :: track_json list. \<not> raises (Response 200 b)"
    by (simp_all add: raises_def)
  show ?thesis
    by (simp add: fetch_album_metadata_def i numeral_3_eq_3 album_try_def album_env_facts
        get_ok_Response r Let_def album_track_of_json_def normalize_samples song_a_def song_b_def)
qed

theorem selection_value_error_witness:
  "ustr ''a'' \<in> set (py_split (ustr ''1 a'')) \<and> py_int (ustr ''a'') = Inl ValueError \<and>
   select_songs [song_a, song_b] (ustr ''1 a'') = Inl ValueError \<and>
   map_option fst (main album_env album_link (ustr ''1 a'') world0) = Some (Inl ValueError) \<and>
   map_option (requests_log \<circ> snd) (main album_env album_link (ustr ''1 a'') world0) =
     Some [GetAlbum (ustr ''a1''), GetAlbumTracks (ustr ''a1'')] \<and>
   map_option (\<lambda>r. files (snd r) = files world0) (main album_env album_link (ustr ''1 a'') world0) =
     Some True"
proof -
  have a: "ustr ''a'' \<in> set (py_split (ustr ''1 a''))"
    by (simp add: py_split_samples)
  have b: "py_int (ustr ''a'') = Inl ValueError"
    by (simp add: py_int_samples)
  have c: "contains (ustr ''album'') album_link"
    by (simp add: album_link_def ustr_def)
  note t = selection_value_error[OF a b, of "[song_a, song_b]" album_link album_env world0
      "[song_a, song_b]" "ustr ''LP''"]
  from t c album_env_fetch have
    m: "main album_env album_link (ustr ''1 a'') world0 =
          Some (Inl ValueError,
                print PromptSelection
                  ((log_request (GetAlbumTracks (ustr ''a1''))
                     (print GettingAlbumSongs (print (AlbumBy (ustr ''LP'') (ustr ''Band''))
                        (log_request (GetAlbum (ustr ''a1'')) (print PromptUrl world0)))))
                   \<lparr>stdout := stdout (log_request (GetAlbumTracks (ustr ''a1''))
                     (print GettingAlbumSongs (print (AlbumBy (ustr ''LP'') (ustr ''Band''))
                        (log_request (GetAlbum (ustr ''a1'')) (print PromptUrl world0)))))
                      @ TracksInAlbum # listing [song_a, song_b]\<rparr>))"
    and s: "select_songs [song_a, song_b] (ustr ''1 a'') = Inl ValueError"
    by blast+
  show ?thesis
    by (simp add: a b s m sample_facts)
qed


section \<open>The batch\<close>

lemma started_append [simp]: "started (xs @ ys) = started xs @ started ys"
  by (simp add: started_def)

lemma reports_append [simp]: "reports (xs @ ys) = reports xs @ reports ys"
  by (simp add: reports_def)

lemma started_simps [simp]:
  "started [Downloading n] = [n]" "started [Downloaded] = []" "started [SkippedExists] = []"
  "started [RetryDownload a b] = []" "started [FailedDownload b] = []"
  by (simp_all add: started_def)

lemma reports_simps [simp]:
  "reports [Downloading n] = []" "reports [Downloaded] = [Downloaded]"
  "reports [SkippedExists] = [SkippedExists]"
  "reports [RetryDownload a b] = []" "reports [FailedDownload b] = [FailedDownload b]"
  by (simp_all add: reports_def is_report_def)

















lemma trackname_samples:
  "trackname_of song_a = ustr ''Song - Band''" "trackname_of song_b = ustr ''Tune - Duo''"
  "tid song_b = ustr ''t2''"
  by (simp_all add: trackname_of_def song_a_def song_b_def ustr_def)




text \<open>
  Claim C8 fails on the code for a status that is neither 200 nor an error status
  (400 to 599), such as 204: \<open>raise_for_status\<close> does not raise, \<open>persist_audio_file\<close>
  returns \<open>False\<close> without writing, and \<open>download_track\<close> takes \<open>False\<close> for "already
  exists": it prints the skip and returns \<open>True\<close>, though no file is there.
\<close>

theorem status_204_reported_as_skipped:
  "\<not> path_exists world0 (target_path (ustr ''/music'') song_a) \<and>
   persist_audio_file no_content (trackname_of song_a) (tid song_a) (ustr ''/music'') world0 =
     (Inr False, log_request (GetAudio (ustr ''t1'')) world0) \<and>
   fst (download_track no_content song_a (ustr ''/music'') 3 world0) = Inr (Some True) \<and>
   stdout (snd (download_track no_content song_a (ustr ''/music'') 3 world0)) =
     [Downloading (ustr ''Song - Band''), SkippedExists] \<and>
   requests_log (snd (download_track no_content song_a (ustr ''/music'') 3 world0)) =
     [GetAudio (ustr ''t1'')] \<and>
   files (snd (download_track no_content song_a (ustr ''/music'') 3 world0)) = files world0"
proof -
  have r: "\<not> raises (Response 204 ([] :: bytes))" by (simp add: raises_def)
  have n: "audio_api no_content k i = Response 204 []" for k i
    by (simp add: no_content_def offline_def)
  have p: "persist_audio_file no_content (trackname_of song_a) (ustr ''t1'') (ustr ''/music'') w =
     (Inr False, log_request (GetAudio (ustr ''t1'')) w)" if "files w = (\<lambda>p. None)" for w
    using that by (simp add: persist_audio_file_def path_exists_def n get_ok_Response r sample_facts)
  have f: "files (print (Downloading (trackname_of song_a)) world0) = (\<lambda>p. None)"
    by (simp add: sample_facts)
  have d: "download_track no_content song_a (ustr ''/music'') 3 world0 =
     (Inr (Some True), print SkippedExists
        (log_request (GetAudio (ustr ''t1'')) (print (Downloading (trackname_of song_a)) world0)))"
    by (simp add: download_track_def Let_def numeral_3_eq_3 p[OF f] sample_facts)
  have 1: "\<not> path_exists world0 (target_path (ustr ''/music'') song_a)"
    by (simp add: sample_facts)
  have 2: "persist_audio_file no_content (trackname_of song_a) (tid song_a) (ustr ''/music'') world0 =
     (Inr False, log_request (GetAudio (ustr ''t1'')) world0)"
    using p[of world0] by (simp add: sample_facts)
  have 3: "fst (download_track no_content song_a (ustr ''/music'') 3 world0) = Inr (Some True)"
    unfolding d by simp
  have 4: "stdout (snd (download_track no_content song_a (ustr ''/music'') 3 world0)) =
     [Downloading (ustr ''Song - Band''), SkippedExists]"
    unfolding d by (simp add: trackname_samples world0_def)
  have 5: "requests_log (snd (download_track no_content song_a (ustr ''/music'') 3 world0)) =
     [GetAudio (ustr ''t1'')]"
    unfolding d by (simp add: sample_facts)
  have 6: "files (snd (download_track no_content song_a (ustr ''/music'') 3 world0)) = files world0"
    unfolding d by simp
  from 1 2 3 4 5 6 show ?thesis by blast
qed


section \<open>Failures of the metadata service\<close>

lemma fetch_track_first:
  assumes "download_api env (sent w) (resource_id link) = Response st r"
    and "\<not> raises (Response st r)"
  shows "fetch_track_metadata env link 3 w = (Inr (Some r), log_request (GetDownload (resource_id link)) w)"
  using assms by (simp add: fetch_track_metadata_def numeral_3_eq_3 track_try_ok)

lemma main_success_false:
  assumes "\<not> contains (ustr ''album'') link" and "\<not> contains (ustr ''playlist'') link"
    and "download_api env (sent w) (resource_id link) = Response st r"
    and "\<not> raises (Response st r)" and "eq_False (dj_success r)"
  shows "main env link selection w =
      Some (Inr (), print UnableTrack (log_request (GetDownload (resource_id link)) (print PromptUrl w)))"
proof -
  from assms(3) have "download_api env (sent (print PromptUrl w)) (resource_id link) = Response st r"
    by simp
  from fetch_track_first[OF this assms(4)] assms(1,2,5) show ?thesis
    by (simp add: main_def Let_def)
qed

text \<open>
  Claim C9, as the code has it. Every call of the metadata service that fails with a
  \<open>RequestException\<close>, be it no response at all or an error status (so also a not-found
  sent as 404), makes the run of the operation it belongs to fail in the same way: the
  track request, either request of an album, the playlist request and any page request
  of a playlist, after whatever pages were fetched. Each of the three metadata loops
  answers three such runs alike: it retries after the first and the second, and after
  the third it prints the failure and returns \<open>None\<close>, without a fourth run. An answer
  without error status is returned from the first request whatever it says, so a
  \<open>success = false\<close> answer is not retried: \<open>main\<close> reports the failure after that
  single request.
\<close>

theorem request_failures_retried_alike:
  "(raises (download_api env (sent w) i) \<longrightarrow>
      track_try env i w = (Inl RequestException, log_request (GetDownload i) w)) \<and>
   (raises (album_api env (sent w) i) \<longrightarrow>
      album_try env i w = (Inl RequestException, log_request (GetAlbum i) w)) \<and>
   (album_api env (sent w) i = Response sa a \<and> \<not> raises (Response sa a) \<and>
    raises (album_tracks_api env (Suc (sent w)) i) \<longrightarrow>
      album_try env i w =
        (Inl RequestException,
         log_request (GetAlbumTracks i)
           (print GettingAlbumSongs (print (AlbumBy (cj_title a) (cj_artists a))
              (log_request (GetAlbum i) w))))) \<and>
   (raises (playlist_api env (sent w) i) \<longrightarrow>
      playlist_try env i w = Some (Inl RequestException, log_request (GetPlaylist i) w)) \<and>
   (playlist_api env (sent w) i = Response sp m \<and> \<not> raises (Response sp m) \<and>
    breaks_off env i (Suc (sent w)) (JInt 0) pages \<longrightarrow>
      playlist_try env i w =
        Some (Inl RequestException,
              foldl (\<lambda>w' off'. log_request (GetPlaylistTracks i off') w')
                (print GettingPlaylistSongs (print (PlaylistBy (cj_title m) (cj_artists m))
                   (log_request (GetPlaylist i) w)))
                (JInt 0 # map pj_nextOffset pages))) \<and>
   (track_try env (resource_id link) w = (Inl RequestException, wt1) \<and>
    track_try env (resource_id link) (sleep 2 (print (RetryTrack 2 3) wt1)) =
      (Inl RequestException, wt2) \<and>
    track_try env (resource_id link) (sleep 2 (print (RetryTrack 3 3) wt2)) =
      (Inl RequestException, wt3) \<longrightarrow>
      fetch_track_metadata env link 3 w = (Inr None, print (FailedTrack 3) wt3)) \<and>
   (album_try env (resource_id link) w = (Inl RequestException, wa1) \<and>
    album_try env (resource_id link) (sleep 2 (print (RetryAlbum 2 3) wa1)) =
      (Inl RequestException, wa2) \<and>
    album_try env (resource_id link) (sleep 2 (print (RetryAlbum 3 3) wa2)) =
      (Inl RequestException, wa3) \<longrightarrow>
      fetch_album_metadata env link 3 w = (Inr None, print (FailedAlbum 3) wa3)) \<and>
   (playlist_try env (resource_id link) w = Some (Inl RequestException, wp1) \<and>
    playlist_try env (resource_id link) (sleep 2 (print (RetryPlaylist 2 3) wp1)) =
      Some (Inl RequestException, wp2) \<and>
    playlist_try env (resource_id link) (sleep 2 (print (RetryPlaylist 3 3) wp2)) =
      Some (Inl RequestException, wp3) \<longrightarrow>
      fetch_playlist_metadata env link 3 w = Some (Inr None, print (FailedPlaylist 3) wp3)) \<and>
   (raises (download_api env (sent w) (resource_id link)) \<and>
    raises (download_api env (sent w + 1) (resource_id link)) \<and>
    raises (download_api env (sent w + 2) (resource_id link)) \<longrightarrow>
      fst (fetch_track_metadata env link 3 w) = Inr None \<and>
      requests_log (snd (fetch_track_metadata env link 3 w)) =
        requests_log w @ replicate 3 (GetDownload (resource_id link)) \<and>
      stdout (snd (fetch_track_metadata env link 3 w)) =
        stdout w @ [RetryTrack 2 3, RetryTrack 3 3, FailedTrack 3]) \<and>
   (download_api env (sent w) (resource_id link) = Response st r \<and> \<not> raises (Response st r) \<longrightarrow>
      fst (fetch_track_metadata env link 3 w) = Inr (Some r) \<and>
      requests_log (snd (fetch_track_metadata env link 3 w)) =
        requests_log w @ [GetDownload (resource_id link)]) \<and>
   (\<not> contains (ustr ''album'') link \<and> \<not> contains (ustr ''playlist'') link \<and>
    download_api env (sent w) (resource_id link) = Response st r \<and> \<not> raises (Response st r) \<and>
    eq_False (dj_success r) \<longrightarrow>
      map_option fst (main env link selection w) = Some (Inr ()) \<and>
      map_option (requests_log \<circ> snd) (main env link selection w) =
        Some (requests_log w @ [GetDownload (resource_id link)]) \<and>
      map_option (stdout \<circ> snd) (main env link selection w) =
        Some (stdout w @ [PromptUrl, UnableTrack]))"
proof -
  have c1: "raises (download_api env (sent w) i) \<longrightarrow>
      track_try env i w = (Inl RequestException, log_request (GetDownload i) w)"
    by (simp add: track_try_raises)
  have c2: "raises (album_api env (sent w) i) \<longrightarrow>
      album_try env i w = (Inl RequestException, log_request (GetAlbum i) w)"
    by (simp add: album_try_raises)
  have c3: "album_api env (sent w) i = Response sa a \<and> \<not> raises (Response sa a) \<and>
    raises (album_tracks_api env (Suc (sent w)) i) \<longrightarrow>
      album_try env i w =
        (Inl RequestException,
         log_request (GetAlbumTracks i)
           (print GettingAlbumSongs (print (AlbumBy (cj_title a) (cj_artists a))
              (log_request (GetAlbum i) w))))"
    using album_try_tracks_raise[of env w i sa a] by simp
  have c4: "raises (playlist_api env (sent w) i) \<longrightarrow>
      playlist_try env i w = Some (Inl RequestException, log_request (GetPlaylist i) w)"
    by (simp add: playlist_try_raises)
  have c5: "playlist_api env (sent w) i = Response sp m \<and> \<not> raises (Response sp m) \<and>
    breaks_off env i (Suc (sent w)) (JInt 0) pages \<longrightarrow>
      playlist_try env i w =
        Some (Inl RequestException,
              foldl (\<lambda>w' off'. log_request (GetPlaylistTracks i off') w')
                (print GettingPlaylistSongs (print (PlaylistBy (cj_title m) (cj_artists m))
                   (log_request (GetPlaylist i) w)))
                (JInt 0 # map pj_nextOffset pages))"
    using playlist_try_breaks_off[of env w i sp m pages] by blast
  have c6: "track_try env (resource_id link) w = (Inl RequestException, wt1) \<and>
    track_try env (resource_id link) (sleep 2 (print (RetryTrack 2 3) wt1)) =
      (Inl RequestException, wt2) \<and>
    track_try env (resource_id link) (sleep 2 (print (RetryTrack 3 3) wt2)) =
      (Inl RequestException, wt3) \<longrightarrow>
      fetch_track_metadata env link 3 w = (Inr None, print (FailedTrack 3) wt3)"
    using track_retry_exhausted[of env link w wt1 wt2 wt3] by simp
  have c7: "album_try env (resource_id link) w = (Inl RequestException, wa1) \<and>
    album_try env (resource_id link) (sleep 2 (print (RetryAlbum 2 3) wa1)) =
      (Inl RequestException, wa2) \<and>
    album_try env (resource_id link) (sleep 2 (print (RetryAlbum 3 3) wa2)) =
      (Inl RequestException, wa3) \<longrightarrow>
      fetch_album_metadata env link 3 w = (Inr None, print (FailedAlbum 3) wa3)"
    using album_retry_exhausted[of env link w wa1 wa2 wa3] by simp
  have c8: "playlist_try env (resource_id link) w = Some (Inl RequestException, wp1) \<and>
    playlist_try env (resource_id link) (sleep 2 (print (RetryPlaylist 2 3) wp1)) =
      Some (Inl RequestException, wp2) \<and>
    playlist_try env (resource_id link) (sleep 2 (print (RetryPlaylist 3 3) wp2)) =
      Some (Inl RequestException, wp3) \<longrightarrow>
      fetch_playlist_metadata env link 3 w = Some (Inr None, print (FailedPlaylist 3) wp3)"
    using playlist_retry_exhausted[of env link w wp1 wp2 wp3] by simp
  have c9: "raises (download_api env (sent w) (resource_id link)) \<and>
    raises (download_api env (sent w + 1) (resource_id link)) \<and>
    raises (download_api env (sent w + 2) (resource_id link)) \<longrightarrow>
      fst (fetch_track_metadata env link 3 w) = Inr None \<and>
      requests_log (snd (fetch_track_metadata env link 3 w)) =
        requests_log w @ replicate 3 (GetDownload (resource_id link)) \<and>
      stdout (snd (fetch_track_metadata env link 3 w)) =
        stdout w @ [RetryTrack 2 3, RetryTrack 3 3, FailedTrack 3]"
    using fetch_track_exhausted[of env w link] by simp
  have c10: "download_api env (sent w) (resource_id link) = Response st r \<and>
    \<not> raises (Response st r) \<longrightarrow>
      fst (fetch_track_metadata env link 3 w) = Inr (Some r) \<and>
      requests_log (snd (fetch_track_metadata env link 3 w)) =
        requests_log w @ [GetDownload (resource_id link)]"
    using fetch_track_first[of env w link st r] by simp
  have c11: "\<not> contains (ustr ''album'') link \<and> \<not> contains (ustr ''playlist'') link \<and>
    download_api env (sent w) (resource_id link) = Response st r \<and> \<not> raises (Response st r) \<and>
    eq_False (dj_success r) \<longrightarrow>
      map_option fst (main env link selection w) = Some (Inr ()) \<and>
      map_option (requests_log \<circ> snd) (main env link selection w) =
        Some (requests_log w @ [GetDownload (resource_id link)]) \<and>
      map_option (stdout \<circ> snd) (main env link selection w) =
        Some (stdout w @ [PromptUrl, UnableTrack])"
    using main_success_false[of link env w st r selection] by simp
  show ?thesis
    by (intro conjI c1 c2 c3 c4 c5 c6 c7 c8 c9 c10 c11)
qed

lemma not_found_facts:
  "download_api not_found n i = Response 200 answer_no"
  "\<not> raises (Response 200 answer_no)"
  "eq_False (dj_success answer_no)"
  "\<not> contains (ustr ''album'') track_link"
  "\<not> contains (ustr ''playlist'') track_link"
  "stdout world0 = []"
  by (simp_all add: not_found_def offline_def raises_def answer_no_def track_link_def ustr_def
      world0_def)

lemma broken_facts:
  "album_api broken n i = Response 200 lp"
  "album_tracks_api broken n i = NoResponse"
  "playlist_api broken n i = Response 200 mix"
  "playlist_tracks_api broken n i (JInt 0) = Response 200 first_page"
  "playlist_tracks_api broken n i (JInt 2) = Response 503 short_page"
  "pj_nextOffset first_page = JInt 2"
  by (simp_all add: broken_def offline_def first_page_def)

theorem request_failures_retried_alike_witness:
  "track_try offline (ustr ''t1'') world0 =
     (Inl RequestException, log_request (GetDownload (ustr ''t1'')) world0) \<and>
   album_try offline (ustr ''a1'') world0 =
     (Inl RequestException, log_request (GetAlbum (ustr ''a1'')) world0) \<and>
   playlist_try offline (ustr ''p1'') world0 =
     Some (Inl RequestException, log_request (GetPlaylist (ustr ''p1'')) world0) \<and>
   fst (fetch_track_metadata offline track_link 3 world0) = Inr None \<and>
   requests_log (snd (fetch_track_metadata offline track_link 3 world0)) =
     requests_log world0 @ replicate 3 (GetDownload (resource_id track_link)) \<and>
   stdout (snd (fetch_track_metadata offline track_link 3 world0)) =
     [RetryTrack 2 3, RetryTrack 3 3, FailedTrack 3] \<and>
   fst (fetch_album_metadata broken album_link 3 world0) = Inr None \<and>
   requests_log (snd (fetch_album_metadata broken album_link 3 world0)) =
     [GetAlbum (ustr ''a1''), GetAlbumTracks (ustr ''a1''),
      GetAlbum (ustr ''a1''), GetAlbumTracks (ustr ''a1''),
      GetAlbum (ustr ''a1''), GetAlbumTracks (ustr ''a1'')] \<and>
   map_option fst (fetch_playlist_metadata broken playlist_link 3 world0) = Some (Inr None) \<and>
   map_option (requests_log \<circ> snd) (fetch_playlist_metadata broken playlist_link 3 world0) =
     Some [GetPlaylist (ustr ''p1''), GetPlaylistTracks (ustr ''p1'') (JInt 0),
           GetPlaylistTracks (ustr ''p1'') (JInt 2),
           GetPlaylist (ustr ''p1''), GetPlaylistTracks (ustr ''p1'') (JInt 0),
           GetPlaylistTracks (ustr ''p1'') (JInt 2),
           GetPlaylist (ustr ''p1''), GetPlaylistTracks (ustr ''p1'') (JInt 0),
           GetPlaylistTracks (ustr ''p1'') (JInt 2)] \<and>
   download_api not_found (sent world0) (resource_id track_link) = Response 200 answer_no \<and>
   eq_False (dj_success answer_no) \<and>
   fst (fetch_track_metadata not_found track_link 3 world0) = Inr (Some answer_no) \<and>
   map_option fst (main not_found track_link [] world0) = Some (Inr ()) \<and>
   map_option (requests_log \<circ> snd) (main not_found track_link [] world0) =
     Some (requests_log world0 @ [GetDownload (resource_id track_link)]) \<and>
   map_option (stdout \<circ> snd) (main not_found track_link [] world0) =
     Some (stdout world0 @ [PromptUrl, UnableTrack])"
proof -
  have w0: "requests_log world0 = []" "stdout world0 = []"
    by (simp_all add: world0_def)
  have ro: "raises (download_api offline n j)" "raises (album_api offline n j)"
    "raises (playlist_api offline n j)" for n j
    by (simp_all add: offline_facts raises_samples)

  \<comment> \<open>a single failing call\<close>
  have s1: "track_try offline (ustr ''t1'') world0 =
      (Inl RequestException, log_request (GetDownload (ustr ''t1'')) world0)"
    by (rule request_failures_retried_alike[where env = offline, THEN conjunct1, THEN mp, OF ro(1)])
  have s2: "album_try offline (ustr ''a1'') world0 =
      (Inl RequestException, log_request (GetAlbum (ustr ''a1'')) world0)"
    by (rule request_failures_retried_alike[where env = offline, THEN conjunct2,
      THEN conjunct1, THEN mp, OF ro(2)])
  have s4: "playlist_try offline (ustr ''p1'') world0 =
      Some (Inl RequestException, log_request (GetPlaylist (ustr ''p1'')) world0)"
    by (rule request_failures_retried_alike[where env = offline, THEN conjunct2,
      THEN conjunct2, THEN conjunct2, THEN conjunct1, THEN mp, OF ro(3)])

  \<comment> \<open>the track loop without any response\<close>
  have g: "raises (download_api offline (sent world0) (resource_id track_link)) \<and>
    raises (download_api offline (sent world0 + 1) (resource_id track_link)) \<and>
    raises (download_api offline (sent world0 + 2) (resource_id track_link))"
    by (simp add: ro)
  note e9 = request_failures_retried_alike[where env = offline and w = world0
      and link = track_link, THEN conjunct2, THEN conjunct2, THEN conjunct2, THEN conjunct2,
        THEN conjunct2, THEN conjunct2, THEN conjunct2, THEN conjunct2, THEN conjunct1,
        THEN mp, OF g]
  have t1: "fst (fetch_track_metadata offline track_link 3 world0) = Inr None"
    by (rule e9[THEN conjunct1])
  have t2: "requests_log (snd (fetch_track_metadata offline track_link 3 world0)) =
     requests_log world0 @ replicate 3 (GetDownload (resource_id track_link))"
    by (rule e9[THEN conjunct2, THEN conjunct1])
  define c1 where "c1 = log_request (GetDownload (resource_id track_link)) world0"
  define c2 where "c2 = log_request (GetDownload (resource_id track_link))
    (sleep 2 (print (RetryTrack 2 3) c1))"
  define c3 where "c3 = log_request (GetDownload (resource_id track_link))
    (sleep 2 (print (RetryTrack 3 3) c2))"
  have tt: "track_try offline (resource_id track_link) v =
      (Inl RequestException, log_request (GetDownload (resource_id track_link)) v)" for v
    by (rule request_failures_retried_alike[where env = offline, THEN conjunct1, THEN mp, OF ro(1)])
  have ot: "fetch_track_metadata offline track_link 3 world0 =
      (Inr None, print (FailedTrack 3) c3)"
    by (rule request_failures_retried_alike[where env = offline and w = world0
          and link = track_link and ?wt1.0 = c1 and ?wt2.0 = c2, THEN conjunct2,
            THEN conjunct2, THEN conjunct2, THEN conjunct2, THEN conjunct2, THEN conjunct1,
            THEN mp])
      (simp add: tt c1_def c2_def c3_def)
  have t3: "stdout (snd (fetch_track_metadata offline track_link 3 world0)) =
     [RetryTrack 2 3, RetryTrack 3 3, FailedTrack 3]"
    unfolding ot by (simp add: c3_def c2_def c1_def w0)

  \<comment> \<open>the album loop when the track list gets no response\<close>
  define T where "T = (\<lambda>v. log_request (GetAlbumTracks (resource_id album_link))
    (print GettingAlbumSongs (print (AlbumBy (cj_title lp) (cj_artists lp))
      (log_request (GetAlbum (resource_id album_link)) v))))"
  have ha: "album_api broken (sent v) (resource_id album_link) = Response 200 lp \<and>
      \<not> raises (Response 200 lp) \<and>
      raises (album_tracks_api broken (Suc (sent v)) (resource_id album_link))" for v
    by (simp add: broken_facts raises_def)
  have ta: "album_try broken (resource_id album_link) v = (Inl RequestException, T v)" for v
    unfolding T_def
    by (rule request_failures_retried_alike[where env = broken, THEN conjunct2, THEN conjunct2,
      THEN conjunct1, THEN mp, OF ha])
  have ba: "fetch_album_metadata broken album_link 3 world0 =
      (Inr None, print (FailedAlbum 3)
         (T (sleep 2 (print (RetryAlbum 3 3) (T (sleep 2 (print (RetryAlbum 2 3) (T world0))))))))"
    by (rule request_failures_retried_alike[where env = broken and w = world0
          and link = album_link and ?wa1.0 = "T world0"
          and ?wa2.0 = "T (sleep 2 (print (RetryAlbum 2 3) (T world0)))", THEN conjunct2,
            THEN conjunct2, THEN conjunct2, THEN conjunct2, THEN conjunct2, THEN conjunct2,
            THEN conjunct1, THEN mp])
      (simp add: ta)
  have a1: "fst (fetch_album_metadata broken album_link 3 world0) = Inr None"
    unfolding ba by simp
  have a2: "requests_log (snd (fetch_album_metadata broken album_link 3 world0)) =
     [GetAlbum (ustr ''a1''), GetAlbumTracks (ustr ''a1''),
      GetAlbum (ustr ''a1''), GetAlbumTracks (ustr ''a1''),
      GetAlbum (ustr ''a1''), GetAlbumTracks (ustr ''a1'')]"
    unfolding ba by (simp add: T_def w0 link_facts)

  \<comment> \<open>the playlist loop when the second page gets an error status\<close>
  define P where "P = (\<lambda>v.
    foldl (\<lambda>w' off'. log_request (GetPlaylistTracks (resource_id playlist_link) off') w')
      (print GettingPlaylistSongs (print (PlaylistBy (cj_title mix) (cj_artists mix))
        (log_request (GetPlaylist (resource_id playlist_link)) v)))
      (JInt 0 # map pj_nextOffset [first_page]))"
  have hp: "playlist_api broken (sent v) (resource_id playlist_link) = Response 200 mix \<and>
      \<not> raises (Response 200 mix) \<and>
      breaks_off broken (resource_id playlist_link) (Suc (sent v)) (JInt 0) [first_page]" for v
    by (simp add: broken_facts raises_samples raises_def)
  have tp: "playlist_try broken (resource_id playlist_link) v =
      Some (Inl RequestException, P v)" for v
    unfolding P_def
    by (rule request_failures_retried_alike[where env = broken, THEN conjunct2, THEN conjunct2,
      THEN conjunct2, THEN conjunct2, THEN conjunct1, THEN mp, OF hp])
  have bp: "fetch_playlist_metadata broken playlist_link 3 world0 =
      Some (Inr None, print (FailedPlaylist 3)
         (P (sleep 2 (print (RetryPlaylist 3 3) (P (sleep 2 (print (RetryPlaylist 2 3) (P world0))))))))"
    by (rule request_failures_retried_alike[where env = broken and w = world0
          and link = playlist_link and ?wp1.0 = "P world0"
          and ?wp2.0 = "P (sleep 2 (print (RetryPlaylist 2 3) (P world0)))", THEN conjunct2,
            THEN conjunct2, THEN conjunct2, THEN conjunct2, THEN conjunct2, THEN conjunct2,
            THEN conjunct2, THEN conjunct1, THEN mp])
      (simp add: tp)
  have p1: "map_option fst (fetch_playlist_metadata broken playlist_link 3 world0) =
      Some (Inr None)"
    unfolding bp by simp
  have p2: "map_option (requests_log \<circ> snd)
      (fetch_playlist_metadata broken playlist_link 3 world0) =
     Some [GetPlaylist (ustr ''p1''), GetPlaylistTracks (ustr ''p1'') (JInt 0),
           GetPlaylistTracks (ustr ''p1'') (JInt 2),
           GetPlaylist (ustr ''p1''), GetPlaylistTracks (ustr ''p1'') (JInt 0),
           GetPlaylistTracks (ustr ''p1'') (JInt 2),
           GetPlaylist (ustr ''p1''), GetPlaylistTracks (ustr ''p1'') (JInt 0),
           GetPlaylistTracks (ustr ''p1'') (JInt 2)]"
    unfolding bp by (simp add: P_def w0 link_facts broken_facts)

  \<comment> \<open>an answer with \<open>success = false\<close>\<close>
  have h: "download_api not_found (sent world0) (resource_id track_link) = Response 200 answer_no"
    "eq_False (dj_success answer_no)"
    by (simp_all add: not_found_facts)
  have h10: "download_api not_found (sent world0) (resource_id track_link) = Response 200 answer_no \<and>
      \<not> raises (Response 200 answer_no)"
    by (simp add: not_found_facts)
  have h11: "\<not> contains (ustr ''album'') track_link \<and> \<not> contains (ustr ''playlist'') track_link \<and>
      download_api not_found (sent world0) (resource_id track_link) = Response 200 answer_no \<and>
      \<not> raises (Response 200 answer_no) \<and> eq_False (dj_success answer_no)"
    by (simp add: not_found_facts)
  note e10 = request_failures_retried_alike[where env = not_found and w = world0
      and link = track_link and st = 200 and r = answer_no, THEN conjunct2, THEN conjunct2,
        THEN conjunct2, THEN conjunct2, THEN conjunct2, THEN conjunct2, THEN conjunct2,
        THEN conjunct2, THEN conjunct2, THEN conjunct1, THEN mp, OF h10]
  note e11 = request_failures_retried_alike[where env = not_found and w = world0
      and link = track_link and st = 200 and r = answer_no and selection = "[]",
        THEN conjunct2, THEN conjunct2, THEN conjunct2, THEN conjunct2, THEN conjunct2,
        THEN conjunct2, THEN conjunct2, THEN conjunct2, THEN conjunct2, THEN conjunct2,
      THEN mp, OF h11]
  have n1: "fst (fetch_track_metadata not_found track_link 3 world0) = Inr (Some answer_no)"
    by (rule e10[THEN conjunct1])
  have n2: "map_option fst (main not_found track_link [] world0) = Some (Inr ())"
    by (rule e11[THEN conjunct1])
  have n3: "map_option (requests_log \<circ> snd) (main not_found track_link [] world0) =
     Some (requests_log world0 @ [GetDownload (resource_id track_link)])"
    by (rule e11[THEN conjunct2, THEN conjunct1])
  have n4: "map_option (stdout \<circ> snd) (main not_found track_link [] world0) =
     Some (stdout world0 @ [PromptUrl, UnableTrack])"
    by (rule e11[THEN conjunct2, THEN conjunct2])
  show ?thesis
    by (intro conjI s1 s2 s4 t1 t2 t3 a1 a2 p1 p2 h n1 n2 n3 n4)
qed

text \<open>
  A service that answers 200 with \<open>success = false\<close>: \<open>fetch_track_metadata\<close> returns
  the answer after one request, and \<open>main\<close> ends having sent that request only.
\<close>

theorem success_false_not_retried_counterexample:
  "dj_success answer_no = Some (JBool False) \<and>
   fetch_track_metadata not_found track_link 3 world0 =
     (Inr (Some answer_no), log_request (GetDownload (ustr ''t1'')) world0) \<and>
   requests_log (log_request (GetDownload (ustr ''t1'')) world0) = [GetDownload (ustr ''t1'')] \<and>
   main not_found track_link [] world0 =
     Some (Inr (), print UnableTrack (log_request (GetDownload (ustr ''t1'')) (print PromptUrl world0))) \<and>
   requests_log (print UnableTrack (log_request (GetDownload (ustr ''t1'')) (print PromptUrl world0))) =
     [GetDownload (ustr ''t1'')]"
proof -
  have f: "fetch_track_metadata not_found track_link 3 w =
      (Inr (Some answer_no), log_request (GetDownload (ustr ''t1'')) w)" for w
    using fetch_track_first[of not_found w track_link 200 answer_no]
    by (simp add: not_found_facts sample_facts)
  have m: "main not_found track_link [] world0 =
     Some (Inr (), print UnableTrack (log_request (GetDownload (ustr ''t1'')) (print PromptUrl world0)))"
    by (simp add: main_def Let_def f not_found_facts)
  have s: "dj_success answer_no = Some (JBool False)"
    by (simp add: answer_no_def)
  have l: "requests_log (log_request (GetDownload (ustr ''t1'')) world0) = [GetDownload (ustr ''t1'')]"
    "requests_log (print UnableTrack (log_request (GetDownload (ustr ''t1'')) (print PromptUrl world0))) =
     [GetDownload (ustr ''t1'')]"
    by (simp_all add: sample_facts)
  from s f[of world0] m l show ?thesis by blast
qed

end
